theory Spec2Isabelle
  imports Main
begin

section \<open>Holiday calendar widget: the two CalendarView components\<close>

text \<open>
  The repository holds two versions of the React component \<open>CalendarView\<close>:
  \<^item> the remote version (\<open>src/unnamed/part_000\<close>), which fetches public holidays from a
    web service, filters and deduplicates them, and highlights weeks by the number of
    regular and work holiday days;
  \<^item> the import version (\<open>src/calendar-widget/src/components/CalendarView.tsx\<close>), which
    starts from mock data, replaces it by the events of an imported calendar file, and
    highlights weeks by the number of work holiday records.

  Both share \<open>getMonthDays\<close> and \<open>getWeeks\<close> word for word. Functions that exist in one
  version only, or differ between the two, carry the suffix \<open>_ics\<close> when they belong to
  the import version.
\<close>

subsection \<open>Strings\<close>

text \<open>
  A JavaScript string is modelled as a \<open>string\<close> whose characters are code units below
  256. \<open>String.prototype.trim\<close> strips white space and line terminators from both ends;
  below 256 those are U+0009 to U+000D, U+0020 and U+00A0.
\<close>

definition isWhiteSpace :: "char \<Rightarrow> bool" where
  "isWhiteSpace c =
     (c = CHR 0x09 \<or> c = CHR 0x0A \<or> c = CHR 0x0B \<or> c = CHR 0x0C \<or> c = CHR 0x0D
      \<or> c = CHR 0x20 \<or> c = CHR 0xA0)"

definition trim :: "string \<Rightarrow> string" where
  "trim s = rev (dropWhile isWhiteSpace (rev (dropWhile isWhiteSpace s)))"

text \<open>\<open>Array.prototype.join\<close> on an array of strings.\<close>

fun join :: "string \<Rightarrow> string list \<Rightarrow> string" where
  "join sep [] = []"
| "join sep [x] = x"
| "join sep (x # y # ys) = x @ sep @ join sep (y # ys)"

text \<open>Decimal digits of a non-negative integer, as \<open>Number.prototype.toString\<close> prints them.\<close>

function toString_nat :: "nat \<Rightarrow> string" where
  "toString_nat n =
     (if n < 10 then [char_of (48 + n)]
      else toString_nat (n div 10) @ [char_of (48 + n mod 10)])"
  by pat_completeness auto
termination
  by (relation "measure id") auto

declare toString_nat.simps [simp del]

definition padStart :: "string \<Rightarrow> nat \<Rightarrow> char \<Rightarrow> string" where
  "padStart s targetLength c = replicate (targetLength - length s) c @ s"

text \<open>
  \<open>addLeadingZeros\<close> of date-fns:
  \<^verbatim>\<open>sign = number < 0 ? "-" : ""; output = Math.abs(number).toString().padStart(targetLength, "0")\<close>.
\<close>

definition addLeadingZeros :: "int \<Rightarrow> nat \<Rightarrow> string" where
  "addLeadingZeros number targetLength =
     (let sign = (if number < 0 then ''-'' else '''');
          output = padStart (toString_nat (nat \<bar>number\<bar>)) targetLength (CHR ''0'')
      in sign @ output)"

subsection \<open>Calendar dates\<close>

text \<open>
  A \<open>Date\<close> is modelled by the number of its local calendar day, counted from
  1970-01-01 (day 0), an \<open>int\<close>. The time of day is left out: every date of the grid is a
  local midnight, \<open>endOfMonth\<close> and \<open>endOfWeek\<close> return the last millisecond of their day,
  and the comparisons and getters of the source depend on the day only. The fields of a
  date follow the ECMAScript definitions (\<open>DayFromYear\<close>, \<open>YearFromTime\<close>,
  \<open>MonthFromTime\<close>, \<open>DateFromTime\<close>, \<open>WeekDay\<close>, \<open>MakeDay\<close>) in the proleptic
  Gregorian calendar.

  The functions of this section and the grid built from them are pure calendar
  arithmetic: they are what the program computes in a time zone in which every local day
  of the grid exists and as long as the dates stay inside the range of \<open>Date\<close>. The
  functions with the suffix \<open>_tz\<close>, further down, are the same functions in any zone and
  on the whole range.
\<close>

definition DayFromYear :: "int \<Rightarrow> int" where
  "DayFromYear y =
     365 * (y - 1970) + (y - 1969) div 4 - (y - 1901) div 100 + (y - 1601) div 400"

definition DaysInYear :: "int \<Rightarrow> int" where
  "DaysInYear y =
     (if y mod 4 \<noteq> 0 then 365 else if y mod 100 \<noteq> 0 then 366
      else if y mod 400 \<noteq> 0 then 365 else 366)"

definition InLeapYear :: "int \<Rightarrow> int" where
  "InLeapYear y = (if DaysInYear y = 365 then 0 else 1)"

text \<open>Month (0 = January) of a day within its year, and the first day of each month.\<close>

definition MonthFromDay :: "int \<Rightarrow> int \<Rightarrow> int" where
  "MonthFromDay diy leap =
     (if diy < 31 then 0
      else if diy < 59 + leap then 1
      else if diy < 90 + leap then 2
      else if diy < 120 + leap then 3
      else if diy < 151 + leap then 4
      else if diy < 181 + leap then 5
      else if diy < 212 + leap then 6
      else if diy < 243 + leap then 7
      else if diy < 273 + leap then 8
      else if diy < 304 + leap then 9
      else if diy < 334 + leap then 10
      else 11)"

definition MonthStart :: "int \<Rightarrow> int \<Rightarrow> int" where
  "MonthStart m leap =
     (if m = 0 then 0
      else if m = 1 then 31
      else if m = 2 then 59 + leap
      else if m = 3 then 90 + leap
      else if m = 4 then 120 + leap
      else if m = 5 then 151 + leap
      else if m = 6 then 181 + leap
      else if m = 7 then 212 + leap
      else if m = 8 then 243 + leap
      else if m = 9 then 273 + leap
      else if m = 10 then 304 + leap
      else 334 + leap)"

text \<open>Number of days of month \<open>m\<close>; used in the lemmas only.\<close>

definition month_length :: "int \<Rightarrow> int \<Rightarrow> int" where
  "month_length m leap =
     (if m = 1 then 28 + leap else if m = 3 \<or> m = 5 \<or> m = 8 \<or> m = 10 then 30 else 31)"

lemma div_succ:
  fixes a n :: int
  assumes n: "0 < n"
  shows "(a + 1) div n = a div n + (if (a + 1) mod n = 0 then 1 else 0)"
proof -
  define q where "q = a div n"
  define r where "r = a mod n"
  have a: "a = q * n + r" and r: "0 \<le> r" "r < n"
    using n by (simp_all add: q_def r_def)
  show ?thesis
  proof (cases "r + 1 = n")
    case True
    then have "a + 1 = (q + 1) * n" using a by (simp add: algebra_simps)
    then show ?thesis using n by (simp add: q_def)
  next
    case False
    with r have r1: "0 \<le> r + 1" "r + 1 < n" by simp_all
    have e: "a + 1 = (r + 1) + q * n" using a by simp
    have "(a + 1) div n = q"
      unfolding e using r1 n by (simp add: div_pos_pos_trivial)
    moreover have "(a + 1) mod n = r + 1"
      unfolding e using r1 n by (simp add: mod_pos_pos_trivial)
    ultimately show ?thesis using r1 r by (simp add: q_def)
  qed
qed

lemma mod_shift:
  fixes y k n :: int
  assumes "n dvd k"
  shows "((y - k) mod n = 0) = (y mod n = 0)"
  using assms by (metis dvd_diff dvd_eq_mod_eq_0 diff_add_cancel dvd_add)

lemma mod_100_4: "(y::int) mod 100 = 0 \<Longrightarrow> y mod 4 = 0"
proof -
  assume "y mod 100 = 0"
  then have "100 dvd y" by (simp add: dvd_eq_mod_eq_0)
  moreover have "(4::int) dvd 100" by simp
  ultimately have "4 dvd y" using dvd_trans by blast
  then show ?thesis by simp
qed

lemma mod_400_100: "(y::int) mod 400 = 0 \<Longrightarrow> y mod 100 = 0"
proof -
  assume "y mod 400 = 0"
  then have "400 dvd y" by (simp add: dvd_eq_mod_eq_0)
  moreover have "(100::int) dvd 400" by simp
  ultimately have "100 dvd y" using dvd_trans by blast
  then show ?thesis by simp
qed

lemma DayFromYear_Suc: "DayFromYear (y + 1) = DayFromYear y + DaysInYear y"
proof -
  have e4: "(y + 1 - 1969) div 4 = (y - 1969) div 4 + (if y mod 4 = 0 then 1 else 0)"
    using div_succ [of 4 "y - 1969"] mod_shift [of 4 1968 y] by (simp add: algebra_simps)
  have e100: "(y + 1 - 1901) div 100 = (y - 1901) div 100 + (if y mod 100 = 0 then 1 else 0)"
    using div_succ [of 100 "y - 1901"] mod_shift [of 100 1900 y] by (simp add: algebra_simps)
  have e400: "(y + 1 - 1601) div 400 = (y - 1601) div 400 + (if y mod 400 = 0 then 1 else 0)"
    using div_succ [of 400 "y - 1601"] mod_shift [of 400 1600 y] by (simp add: algebra_simps)
  show ?thesis
    unfolding DayFromYear_def DaysInYear_def e4 e100 e400
    using mod_100_4 [of y] mod_400_100 [of y] by (auto simp: algebra_simps)
qed

lemma DaysInYear_cases: "DaysInYear y = 365 \<or> DaysInYear y = 366"
  by (simp add: DaysInYear_def)

lemma DayFromYear_pred: "DayFromYear (y - 1) = DayFromYear y - DaysInYear (y - 1)"
  using DayFromYear_Suc [of "y - 1"] by simp

text \<open>
  \<open>YearFromTime\<close>: the largest year whose first day is not after the day. The search
  walks from an estimate, one year at a time; it ends because consecutive values of
  \<open>DayFromYear\<close> lie 365 or 366 days apart.
\<close>

function year_search :: "int \<Rightarrow> int \<Rightarrow> int" where
  "year_search y d =
     (if d < DayFromYear y then year_search (y - 1) d
      else if DayFromYear (y + 1) \<le> d then year_search (y + 1) d
      else y)"
  by pat_completeness auto
termination
proof (relation "measure (\<lambda>(y, d). if d < DayFromYear y then nat (366 + DayFromYear y - d)
                                     else nat (d - DayFromYear y))")
  show "wf (measure (\<lambda>(y, d). if d < DayFromYear y then nat (366 + DayFromYear y - d)
                                else nat (d - DayFromYear y)))"
    by simp
next
  fix y d :: int
  assume "d < DayFromYear y"
  then show "((y - 1, d), (y, d))
      \<in> measure (\<lambda>(y, d). if d < DayFromYear y then nat (366 + DayFromYear y - d)
                           else nat (d - DayFromYear y))"
    using DayFromYear_pred [of y] DaysInYear_cases [of "y - 1"] by auto
next
  fix y d :: int
  assume "\<not> d < DayFromYear y" "DayFromYear (y + 1) \<le> d"
  then show "((y + 1, d), (y, d))
      \<in> measure (\<lambda>(y, d). if d < DayFromYear y then nat (366 + DayFromYear y - d)
                           else nat (d - DayFromYear y))"
    using DayFromYear_Suc [of y] DaysInYear_cases [of y] by auto
qed

declare year_search.simps [simp del]

definition getFullYear :: "int \<Rightarrow> int" where
  "getFullYear d = year_search (1970 + d div 365) d"

definition DayWithinYear :: "int \<Rightarrow> int" where
  "DayWithinYear d = d - DayFromYear (getFullYear d)"

definition getMonth :: "int \<Rightarrow> int" where
  "getMonth d = MonthFromDay (DayWithinYear d) (InLeapYear (getFullYear d))"

definition getDate :: "int \<Rightarrow> int" where
  "getDate d = DayWithinYear d - MonthStart (getMonth d) (InLeapYear (getFullYear d)) + 1"

text \<open>\<open>WeekDay\<close>: 0 is Sunday; 1970-01-01 was a Thursday.\<close>

definition getDay :: "int \<Rightarrow> int" where
  "getDay d = (d + 4) mod 7"

definition MakeDay :: "int \<Rightarrow> int \<Rightarrow> int \<Rightarrow> int" where
  "MakeDay y m dt =
     (let ym = y + m div 12; mn = m mod 12
      in DayFromYear ym + MonthStart mn (InLeapYear ym) + dt - 1)"

text \<open>\<open>Date.prototype.setDate\<close>: the same year and month, another day of the month.\<close>

definition setDate :: "int \<Rightarrow> int \<Rightarrow> int" where
  "setDate d dt = MakeDay (getFullYear d) (getMonth d) dt"

text \<open>
  The date-fns functions the components import.
  \<^item> \<open>startOfMonth\<close>: \<^verbatim>\<open>setDate(1)\<close>;
  \<^item> \<open>endOfMonth\<close>: \<^verbatim>\<open>setFullYear(getFullYear(), getMonth() + 1, 0)\<close>;
  \<^item> \<open>startOfWeek\<close>: \<^verbatim>\<open>diff = (day < weekStartsOn ? 7 : 0) + day - weekStartsOn; setDate(getDate() - diff)\<close>;
  \<^item> \<open>endOfWeek\<close>: \<^verbatim>\<open>diff = (day < weekStartsOn ? -7 : 0) + 6 - (day - weekStartsOn); setDate(getDate() + diff)\<close>;
  \<^item> \<open>addDays\<close>: \<^verbatim>\<open>setDate(getDate() + amount)\<close>.
\<close>

definition startOfMonth :: "int \<Rightarrow> int" where
  "startOfMonth d = setDate d 1"

definition endOfMonth :: "int \<Rightarrow> int" where
  "endOfMonth d = (let month = getMonth d in MakeDay (getFullYear d) (month + 1) 0)"

definition startOfWeek :: "int \<Rightarrow> int \<Rightarrow> int" where
  "startOfWeek d weekStartsOn =
     (let day = getDay d;
          diff = (if day < weekStartsOn then 7 else 0) + day - weekStartsOn
      in setDate d (getDate d - diff))"

definition endOfWeek :: "int \<Rightarrow> int \<Rightarrow> int" where
  "endOfWeek d weekStartsOn =
     (let day = getDay d;
          diff = (if day < weekStartsOn then - 7 else 0) + 6 - (day - weekStartsOn)
      in setDate d (getDate d + diff))"

definition addDays :: "int \<Rightarrow> int \<Rightarrow> int" where
  "addDays d amount = setDate d (getDate d + amount)"

text \<open>
  \<open>format(day, "yyyy-MM-dd")\<close> and \<open>format(day, "d")\<close>. The token \<open>yyyy\<close> prints the year of
  the era: \<^verbatim>\<open>signedYear > 0 ? signedYear : 1 - signedYear\<close>, padded to four digits.
\<close>

definition format_yyyy_MM_dd :: "int \<Rightarrow> string" where
  "format_yyyy_MM_dd d =
     (let signedYear = getFullYear d;
          year = (if signedYear > 0 then signedYear else 1 - signedYear)
      in addLeadingZeros year 4 @ ''-'' @ addLeadingZeros (getMonth d + 1) 2 @ ''-''
         @ addLeadingZeros (getDate d) 2)"

definition format_d :: "int \<Rightarrow> string" where
  "format_d d = addLeadingZeros (getDate d) 1"

subsubsection \<open>Facts about the calendar\<close>

lemma year_search_bounds:
  "DayFromYear (year_search y d) \<le> d \<and> d < DayFromYear (year_search y d + 1)"
proof (induction y d rule: year_search.induct)
  case (1 y d)
  show ?case
  proof (cases "d < DayFromYear y")
    case True
    then have "year_search y d = year_search (y - 1) d"
      by (subst year_search.simps) simp
    with "1.IH"(1) [OF True] show ?thesis by simp
  next
    case False
    show ?thesis
    proof (cases "DayFromYear (y + 1) \<le> d")
      case True
      with False have "year_search y d = year_search (y + 1) d"
        by (subst year_search.simps) simp
      with "1.IH"(2) [OF False True] show ?thesis by simp
    next
      case nle: False
      with False have "year_search y d = y"
        by (subst year_search.simps) simp
      with False nle show ?thesis by simp
    qed
  qed
qed

lemma DayFromYear_mono: "y \<le> y' \<Longrightarrow> DayFromYear y \<le> DayFromYear y'"
proof (induction y' rule: int_ge_induct)
  case base
  show ?case by simp
next
  case (step i)
  then show ?case using DayFromYear_Suc [of i] DaysInYear_cases [of i] by auto
qed

lemma year_unique:
  assumes "DayFromYear y \<le> d" "d < DayFromYear (y + 1)"
    and "DayFromYear y' \<le> d" "d < DayFromYear (y' + 1)"
  shows "y = y'"
proof (rule ccontr)
  assume "y \<noteq> y'"
  then consider "y + 1 \<le> y'" | "y' + 1 \<le> y" by linarith
  then show False
  proof cases
    case 1
    from DayFromYear_mono [OF 1] assms show False by simp
  next
    case 2
    from DayFromYear_mono [OF 2] assms show False by simp
  qed
qed

lemma getFullYear_bounds:
  "DayFromYear (getFullYear d) \<le> d" "d < DayFromYear (getFullYear d + 1)"
  using year_search_bounds [of "1970 + d div 365" d] by (simp_all add: getFullYear_def)

lemma getFullYear_eqI:
  "DayFromYear y \<le> d \<Longrightarrow> d < DayFromYear (y + 1) \<Longrightarrow> getFullYear d = y"
  using year_unique [of "getFullYear d" d y] getFullYear_bounds [of d] by simp

lemma InLeapYear_cases: "InLeapYear y = 0 \<or> InLeapYear y = 1"
  by (simp add: InLeapYear_def)

lemma DaysInYear_leap: "DaysInYear y = 365 + InLeapYear y"
  using DaysInYear_cases [of y] by (auto simp: InLeapYear_def)

lemma DayWithinYear_bounds:
  "0 \<le> DayWithinYear d" "DayWithinYear d < 365 + InLeapYear (getFullYear d)"
  using getFullYear_bounds [of d] DayFromYear_Suc [of "getFullYear d"]
    DaysInYear_leap [of "getFullYear d"]
  by (simp_all add: DayWithinYear_def)

lemma MonthFromDay_range: "0 \<le> MonthFromDay diy leap \<and> MonthFromDay diy leap \<le> 11"
  by (simp add: MonthFromDay_def)

lemma getMonth_range: "0 \<le> getMonth d" "getMonth d \<le> 11"
  using MonthFromDay_range by (simp_all add: getMonth_def)

lemma MakeDay_in_year:
  "0 \<le> m \<Longrightarrow> m \<le> 11 \<Longrightarrow>
   MakeDay y m dt = DayFromYear y + MonthStart m (InLeapYear y) + dt - 1"
  by (simp add: MakeDay_def)

lemma MakeDay_roundtrip: "MakeDay (getFullYear d) (getMonth d) (getDate d) = d"
  using getMonth_range [of d] by (simp add: MakeDay_in_year getDate_def DayWithinYear_def)

lemma setDate_shift: "setDate d dt = d + (dt - getDate d)"
proof -
  have "setDate d dt = MakeDay (getFullYear d) (getMonth d) (getDate d) + (dt - getDate d)"
    by (simp add: setDate_def MakeDay_def Let_def)
  then show ?thesis by (simp add: MakeDay_roundtrip)
qed

lemma addDays_eq: "addDays d n = d + n"
  by (simp add: addDays_def setDate_shift)

lemma getDay_range: "0 \<le> getDay d" "getDay d \<le> 6"
  by (simp_all add: getDay_def)

lemma startOfWeek_eq: "startOfWeek d 0 = d - getDay d"
  using getDay_range [of d] by (simp add: startOfWeek_def setDate_shift Let_def)

lemma endOfWeek_eq: "endOfWeek d 0 = d + (6 - getDay d)"
  using getDay_range [of d] by (simp add: endOfWeek_def setDate_shift Let_def)

lemma month_length_range:
  "leap = 0 \<or> leap = 1 \<Longrightarrow> 28 \<le> month_length m leap \<and> month_length m leap \<le> 31"
  by (auto simp: month_length_def)

lemma month_table:
  assumes "leap = 0 \<or> leap = 1" "0 \<le> diy" "diy < 365 + leap"
  shows "MonthStart (MonthFromDay diy leap) leap \<le> diy"
    and "diy < MonthStart (MonthFromDay diy leap) leap + month_length (MonthFromDay diy leap) leap"
  using assms by (auto simp: MonthFromDay_def MonthStart_def month_length_def)

lemma month_index_cases:
  fixes m :: int
  assumes "0 \<le> m" "m \<le> 11"
  shows "m = 0 \<or> m = 1 \<or> m = 2 \<or> m = 3 \<or> m = 4 \<or> m = 5 \<or> m = 6 \<or> m = 7 \<or> m = 8
    \<or> m = 9 \<or> m = 10 \<or> m = 11"
  using assms by arith

lemma MonthStart_next:
  assumes "0 \<le> m" "m < 11"
  shows "MonthStart (m + 1) leap = MonthStart m leap + month_length m leap"
  using month_index_cases [of m] assms by (auto simp: MonthStart_def month_length_def)

lemma MakeDay_month_end:
  assumes "0 \<le> m" "m \<le> 11"
  shows "MakeDay y (m + 1) 0 = MakeDay y m (month_length m (InLeapYear y))"
proof (cases "m = 11")
  case True
  have "MakeDay y 12 0 = DayFromYear (y + 1) - 1"
    by (simp add: MakeDay_def MonthStart_def)
  moreover have "MakeDay y 11 (month_length 11 (InLeapYear y))
      = DayFromYear y + 365 + InLeapYear y - 1"
    by (simp add: MakeDay_def MonthStart_def month_length_def)
  ultimately show ?thesis
    using True DayFromYear_Suc [of y] DaysInYear_leap [of y] by simp
next
  case False
  with assms have m: "0 \<le> m" "m < 11" by simp_all
  then have "MakeDay y (m + 1) 0 = DayFromYear y + MonthStart (m + 1) (InLeapYear y) - 1"
    by (simp add: MakeDay_in_year)
  then show ?thesis using m MonthStart_next [OF m] by (simp add: MakeDay_in_year)
qed

lemma getDate_range:
  "1 \<le> getDate d" "getDate d \<le> month_length (getMonth d) (InLeapYear (getFullYear d))"
  using month_table [OF InLeapYear_cases DayWithinYear_bounds, of d]
  by (simp_all add: getDate_def getMonth_def)

lemma startOfMonth_eq: "startOfMonth d = d - (getDate d - 1)"
  by (simp add: startOfMonth_def setDate_shift)

lemma endOfMonth_eq:
  "endOfMonth d = d + (month_length (getMonth d) (InLeapYear (getFullYear d)) - getDate d)"
proof -
  have "endOfMonth d = setDate d (month_length (getMonth d) (InLeapYear (getFullYear d)))"
    using getMonth_range [of d] by (simp add: endOfMonth_def setDate_def MakeDay_month_end)
  then show ?thesis by (simp add: setDate_shift)
qed

lemma month_span: "startOfMonth d \<le> d" "d \<le> endOfMonth d"
  using getDate_range [of d] by (simp_all add: startOfMonth_eq endOfMonth_eq)

lemma month_days:
  "28 \<le> endOfMonth d - startOfMonth d + 1" "endOfMonth d - startOfMonth d + 1 \<le> 31"
  using month_length_range [OF InLeapYear_cases, of "getMonth d" "getFullYear d"]
  by (simp_all add: startOfMonth_eq endOfMonth_eq)

lemma same_month_bounds:
  assumes "getFullYear x = getFullYear d" "getMonth x = getMonth d"
  shows "startOfMonth d \<le> x" "x \<le> endOfMonth d"
proof -
  have "startOfMonth x = startOfMonth d" "endOfMonth x = endOfMonth d"
    using assms by (simp_all add: startOfMonth_def endOfMonth_def setDate_def)
  with month_span [of x] show "startOfMonth d \<le> x" "x \<le> endOfMonth d" by simp_all
qed

lemma MonthFromDay_MonthStart:
  assumes "leap = 0 \<or> leap = 1" "0 \<le> m" "m \<le> 11" "1 \<le> dt" "dt \<le> month_length m leap"
  shows "MonthFromDay (MonthStart m leap + dt - 1) leap = m"
  using month_index_cases [OF assms(2,3)] assms(1,4,5)
  by (elim disjE) (auto simp: MonthFromDay_def MonthStart_def month_length_def)

lemma MonthStart_bounds:
  assumes "leap = 0 \<or> leap = 1" "0 \<le> m" "m \<le> 11"
  shows "0 \<le> MonthStart m leap" "MonthStart m leap + month_length m leap \<le> 365 + leap"
  using month_index_cases [OF assms(2,3)] assms(1)
  by (auto simp: MonthStart_def month_length_def)

lemma MakeDay_fields:
  assumes m: "0 \<le> m" "m \<le> 11" and dt: "1 \<le> dt" "dt \<le> month_length m (InLeapYear y)"
  shows "getFullYear (MakeDay y m dt) = y"
    and "getMonth (MakeDay y m dt) = m"
    and "getDate (MakeDay y m dt) = dt"
proof -
  let ?x = "MakeDay y m dt"
  let ?l = "InLeapYear y"
  have x: "?x = DayFromYear y + (MonthStart m ?l + dt - 1)"
    using m by (simp add: MakeDay_in_year)
  have b: "0 \<le> MonthStart m ?l + dt - 1" "MonthStart m ?l + dt - 1 < 365 + ?l"
    using MonthStart_bounds [OF InLeapYear_cases m, of y] dt by simp_all
  show y: "getFullYear ?x = y"
    using b x DayFromYear_Suc [of y] DaysInYear_leap [of y] by (intro getFullYear_eqI) simp_all
  have diy: "DayWithinYear ?x = MonthStart m ?l + dt - 1"
    using x y by (simp add: DayWithinYear_def)
  show mm: "getMonth ?x = m"
    unfolding getMonth_def diy y by (rule MonthFromDay_MonthStart [OF InLeapYear_cases m dt])
  show "getDate ?x = dt"
    unfolding getDate_def mm y diy by simp
qed

lemma startOfMonth_fields:
  "getFullYear (startOfMonth d) = getFullYear d"
  "getMonth (startOfMonth d) = getMonth d"
  "getDate (startOfMonth d) = 1"
proof -
  have "(1::int) \<le> month_length (getMonth d) (InLeapYear (getFullYear d))"
    using month_length_range [OF InLeapYear_cases, of "getMonth d" "getFullYear d"] by simp
  with MakeDay_fields [of "getMonth d" 1 "getFullYear d"] getMonth_range [of d]
  show "getFullYear (startOfMonth d) = getFullYear d"
    "getMonth (startOfMonth d) = getMonth d"
    "getDate (startOfMonth d) = 1"
    by (simp_all add: startOfMonth_def setDate_def)
qed

lemma endOfMonth_fields:
  "getFullYear (endOfMonth d) = getFullYear d"
  "getMonth (endOfMonth d) = getMonth d"
proof -
  let ?n = "month_length (getMonth d) (InLeapYear (getFullYear d))"
  have e: "endOfMonth d = MakeDay (getFullYear d) (getMonth d) ?n"
    using getMonth_range [of d] by (simp add: endOfMonth_def MakeDay_month_end)
  have "1 \<le> ?n"
    using month_length_range [OF InLeapYear_cases, of "getMonth d" "getFullYear d"] by simp
  with MakeDay_fields [of "getMonth d" ?n "getFullYear d"] getMonth_range [of d] e
  show "getFullYear (endOfMonth d) = getFullYear d" "getMonth (endOfMonth d) = getMonth d"
    by simp_all
qed

lemma after_endOfMonth: "getMonth (endOfMonth d + 1) \<noteq> getMonth d"
proof (cases "getMonth d = 11")
  case True
  have "endOfMonth d + 1 = MakeDay (getFullYear d + 1) 0 1"
    using True by (simp add: endOfMonth_def MakeDay_def Let_def)
  moreover have "getMonth (MakeDay (getFullYear d + 1) 0 1) = 0"
    by (rule MakeDay_fields) (simp_all add: month_length_def)
  ultimately show ?thesis using True by simp
next
  case False
  with getMonth_range [of d] have m: "0 \<le> getMonth d + 1" "getMonth d + 1 \<le> 11"
    by simp_all
  have "endOfMonth d + 1 = MakeDay (getFullYear d) (getMonth d + 1) 1"
    by (simp add: endOfMonth_def MakeDay_def Let_def)
  moreover have "getMonth (MakeDay (getFullYear d) (getMonth d + 1) 1) = getMonth d + 1"
    using month_length_range [OF InLeapYear_cases, of "getMonth d + 1" "getFullYear d"]
    by (intro MakeDay_fields m) simp_all
  ultimately show ?thesis by simp
qed

subsection \<open>The month grid and its weeks (both components)\<close>

text \<open>
  \<^verbatim>\<open>let day = start; while (day <= end) { days.push(day); day = addDays(day, 1); }\<close>
  The loop ends because \<open>addDays day 1\<close> is the next day (\<open>addDays_eq\<close>).
\<close>

function getMonthDays_loop :: "int \<Rightarrow> int \<Rightarrow> int list \<Rightarrow> int list" where
  "getMonthDays_loop day endDay days =
     (if day \<le> endDay then getMonthDays_loop (addDays day 1) endDay (days @ [day]) else days)"
  by pat_completeness auto
termination
  by (relation "measure (\<lambda>(day, endDay, days). nat (endDay - day + 1))") (auto simp: addDays_eq)

declare getMonthDays_loop.simps [simp del]

definition getMonthDays :: "int \<Rightarrow> int list" where
  "getMonthDays baseDate =
     (let start = startOfWeek (startOfMonth baseDate) 0;
          endDay = endOfWeek (endOfMonth baseDate) 0
      in getMonthDays_loop start endDay [])"

text \<open>
  \<open>getWeeks\<close>: \<open>forEach\<close> pushes each day on the open week and closes the week at seven
  days; a non-empty open week is pushed at the end.
\<close>

definition getWeeks_step :: "'a list list \<times> 'a list \<Rightarrow> 'a \<Rightarrow> 'a list list \<times> 'a list" where
  "getWeeks_step acc day =
     (let weeks = fst acc; week = snd acc @ [day]
      in if length week = 7 then (weeks @ [week], []) else (weeks, week))"

definition getWeeks :: "'a list \<Rightarrow> 'a list list" where
  "getWeeks days =
     (let acc = foldl getWeeks_step ([], []) days; weeks = fst acc; week = snd acc
      in if length week \<noteq> 0 then weeks @ [week] else weeks)"

text \<open>
  The reference splitting the results of \<open>getWeeks\<close> are compared with: seven elements at
  a time from the front, the rest after them.
\<close>

fun chunks7 :: "'a list \<Rightarrow> 'a list list" where
  "chunks7 xs = (if xs = [] then [] else take 7 xs # chunks7 (drop 7 xs))"

declare chunks7.simps [simp del]

subsubsection \<open>Facts about the grid\<close>

lemma getMonthDays_loop_upto: "getMonthDays_loop day e days = days @ [day..e]"
proof (induction day e days rule: getMonthDays_loop.induct)
  case (1 day e days)
  show ?case
  proof (cases "day \<le> e")
    case True
    then have "getMonthDays_loop day e days = getMonthDays_loop (addDays day 1) e (days @ [day])"
      by (subst getMonthDays_loop.simps) simp
    also have "\<dots> = (days @ [day]) @ [addDays day 1..e]" by (rule "1.IH" [OF True])
    also have "\<dots> = days @ [day..e]" using True by (simp add: addDays_eq upto_rec1)
    finally show ?thesis .
  next
    case False
    then show ?thesis by (subst getMonthDays_loop.simps) simp
  qed
qed

lemma getMonthDays_upto:
  "getMonthDays a = [startOfWeek (startOfMonth a) 0..endOfWeek (endOfMonth a) 0]"
  by (simp add: getMonthDays_def getMonthDays_loop_upto)

lemma week_day_split: "d + 4 = 7 * ((d + 4) div 7) + getDay d"
  by (simp add: getDay_def)

lemma grid_start:
  "getDay (startOfWeek d 0) = 0" "startOfWeek d 0 \<le> d" "d - startOfWeek d 0 < 7"
proof -
  have "d - getDay d + 4 = 0 + 7 * ((d + 4) div 7)"
    using week_day_split [of d] by arith
  then have "(d - getDay d + 4) mod 7 = 0" by (simp only: mod_mult_self2) simp
  then show "getDay (startOfWeek d 0) = 0" by (simp add: startOfWeek_eq getDay_def [of "d - getDay d"])
  show "startOfWeek d 0 \<le> d" "d - startOfWeek d 0 < 7"
    using getDay_range [of d] by (simp_all add: startOfWeek_eq)
qed

lemma grid_end:
  "getDay (endOfWeek d 0) = 6" "d \<le> endOfWeek d 0" "endOfWeek d 0 - d < 7"
proof -
  have "d + (6 - getDay d) + 4 = 6 + 7 * ((d + 4) div 7)"
    using week_day_split [of d] by arith
  then have "(d + (6 - getDay d) + 4) mod 7 = 6" by (simp only: mod_mult_self2) simp
  then show "getDay (endOfWeek d 0) = 6" by (simp add: endOfWeek_eq getDay_def [of "d + (6 - getDay d)"])
  show "d \<le> endOfWeek d 0" "endOfWeek d 0 - d < 7"
    using getDay_range [of d] by (simp_all add: endOfWeek_eq)
qed

lemma grid_length_mod: "(endOfWeek e 0 - startOfWeek s 0 + 1) mod 7 = 0"
proof -
  have "endOfWeek e 0 - startOfWeek s 0 + 1 = 0 + 7 * ((e + 4) div 7 - (s + 4) div 7 + 1)"
    using week_day_split [of e] week_day_split [of s] by (simp add: endOfWeek_eq startOfWeek_eq)
  then show ?thesis by (simp only: mod_mult_self2) simp
qed

lemma getMonthDays_bounds:
  "startOfWeek (startOfMonth a) 0 \<le> endOfWeek (endOfMonth a) 0"
  using grid_start(2) [of "startOfMonth a"] grid_end(2) [of "endOfMonth a"] month_span [of a]
  by simp

lemma getMonthDays_length:
  "length (getMonthDays a) = 28 \<or> length (getMonthDays a) = 35 \<or> length (getMonthDays a) = 42"
proof -
  let ?n = "endOfWeek (endOfMonth a) 0 - startOfWeek (startOfMonth a) 0 + 1"
  have len: "int (length (getMonthDays a)) = ?n"
    using getMonthDays_bounds [of a] by (simp add: getMonthDays_upto)
  have lo: "28 \<le> ?n"
    using grid_start(2) [of "startOfMonth a"] grid_end(2) [of "endOfMonth a"] month_days(1) [of a]
    by simp
  have hi: "?n \<le> 43"
    using grid_start(3) [of "startOfMonth a"] grid_end(3) [of "endOfMonth a"] month_days(2) [of a]
    by simp
  have "?n mod 7 = 0" by (rule grid_length_mod)
  with lo hi have "?n = 28 \<or> ?n = 35 \<or> ?n = 42" by presburger
  with len show ?thesis by linarith
qed

lemma hd_upto_le: "i \<le> j \<Longrightarrow> hd [i..j] = i"
  by (simp add: upto_rec1)

lemma last_upto_le: "i \<le> j \<Longrightarrow> last [i..j] = j"
  by (simp add: upto_rec2)

lemma getMonthDays_hd_last:
  "hd (getMonthDays a) = startOfWeek (startOfMonth a) 0"
  "last (getMonthDays a) = endOfWeek (endOfMonth a) 0"
  using getMonthDays_bounds [of a]
  by (simp_all add: getMonthDays_upto hd_upto_le last_upto_le)

lemma getMonthDays_month:
  assumes "getFullYear x = getFullYear a" "getMonth x = getMonth a"
  shows "x \<in> set (getMonthDays a)"
  using same_month_bounds [OF assms] grid_start(2) [of "startOfMonth a"]
    grid_end(2) [of "endOfMonth a"]
  by (simp add: getMonthDays_upto)

lemma chunks7_Nil: "chunks7 [] = []"
  by (simp add: chunks7.simps)

lemma chunks7_Cons: "xs \<noteq> [] \<Longrightarrow> chunks7 xs = take 7 xs # chunks7 (drop 7 xs)"
  by (subst chunks7.simps) simp

lemma chunks7_short: "xs \<noteq> [] \<Longrightarrow> length xs \<le> 7 \<Longrightarrow> chunks7 xs = [xs]"
  by (simp add: chunks7_Cons chunks7_Nil)

lemma chunks7_full: "length w = 7 \<Longrightarrow> chunks7 (w @ xs) = w # chunks7 xs"
  by (subst chunks7.simps) auto

lemma getWeeks_fold:
  "length w < 7 \<Longrightarrow>
   (let acc = foldl getWeeks_step (ws, w) days
    in if length (snd acc) \<noteq> 0 then fst acc @ [snd acc] else fst acc) = ws @ chunks7 (w @ days)"
proof (induction days arbitrary: ws w)
  case Nil
  then show ?case by (cases "w = []") (simp_all add: chunks7_Nil chunks7_short)
next
  case (Cons d ds)
  show ?case
  proof (cases "length (w @ [d]) = 7")
    case True
    then have step: "getWeeks_step (ws, w) d = (ws @ [w @ [d]], [])"
      by (simp add: getWeeks_step_def)
    have "chunks7 (w @ d # ds) = (w @ [d]) # chunks7 ds"
      using chunks7_full [OF True, of ds] by simp
    then show ?thesis using Cons.IH [of "[]" "ws @ [w @ [d]]"] step by simp
  next
    case False
    with Cons.prems have lt: "length (w @ [d]) < 7" by simp
    from False have step: "getWeeks_step (ws, w) d = (ws, w @ [d])"
      by (simp add: getWeeks_step_def)
    show ?thesis using Cons.IH [OF lt, of ws] step by simp
  qed
qed

lemma getWeeks_chunks7: "getWeeks days = chunks7 days"
  using getWeeks_fold [of "[]" "[]" days] by (simp add: getWeeks_def Let_def)

lemma concat_chunks7: "concat (chunks7 xs) = xs"
proof (induction xs rule: chunks7.induct)
  case (1 xs)
  show ?case
  proof (cases "xs = []")
    case True
    then show ?thesis by (simp add: chunks7_Nil)
  next
    case False
    with "1.IH" [OF False] show ?thesis by (simp add: chunks7_Cons)
  qed
qed

lemma chunks7_sizes: "w \<in> set (chunks7 xs) \<Longrightarrow> 0 < length w \<and> length w \<le> 7"
proof (induction xs rule: chunks7.induct)
  case (1 xs)
  show ?case
  proof (cases "xs = []")
    case True
    with "1.prems" show ?thesis by (simp add: chunks7_Nil)
  next
    case False
    with "1.IH" [OF False] "1.prems" show ?thesis by (auto simp: chunks7_Cons)
  qed
qed

lemma chunks7_butlast: "w \<in> set (butlast (chunks7 xs)) \<Longrightarrow> length w = 7"
proof (induction xs rule: chunks7.induct)
  case (1 xs)
  show ?case
  proof (cases "xs = []")
    case True
    with "1.prems" show ?thesis by (simp add: chunks7_Nil)
  next
    case False
    note eq = chunks7_Cons [OF False]
    show ?thesis
    proof (cases "drop 7 xs = []")
      case True
      with eq "1.prems" show ?thesis by (simp add: chunks7_Nil)
    next
      case ne: False
      then have "chunks7 (drop 7 xs) \<noteq> []" by (simp add: chunks7_Cons)
      moreover from ne have "length (take 7 xs) = 7" by simp
      ultimately show ?thesis using eq "1.prems" "1.IH" [OF False] by auto
    qed
  qed
qed

lemma chunks7_last:
  "length xs mod 7 \<noteq> 0 \<Longrightarrow> chunks7 xs \<noteq> [] \<and> length (last (chunks7 xs)) = length xs mod 7"
proof (induction xs rule: chunks7.induct)
  case (1 xs)
  from "1.prems" have False: "xs \<noteq> []" by auto
  note eq = chunks7_Cons [OF False]
  show ?case
  proof (cases "length xs < 7")
    case True
    then have "chunks7 xs = [xs]" using False by (simp add: chunks7_short)
    with True show ?thesis by simp
  next
    case ge: False
    then have m: "length (drop 7 xs) mod 7 = length xs mod 7"
      by (simp add: le_mod_geq)
    with "1.IH" [OF False] "1.prems" eq show ?thesis by simp
  qed
qed

lemma chunks7_all_full:
  "length xs mod 7 = 0 \<Longrightarrow> w \<in> set (chunks7 xs) \<Longrightarrow> length w = 7"
proof (induction xs rule: chunks7.induct)
  case (1 xs)
  show ?case
  proof (cases "xs = []")
    case True
    with "1.prems" show ?thesis by (simp add: chunks7_Nil)
  next
    case False
    with "1.prems"(1) have ge: "7 \<le> length xs" by (cases "length xs < 7") auto
    then have m: "length (drop 7 xs) mod 7 = 0" using "1.prems"(1) by (simp add: le_mod_geq)
    from ge have "length (take 7 xs) = 7" by simp
    with "1.IH" [OF False m] "1.prems"(2) show ?thesis by (auto simp: chunks7_Cons [OF False])
  qed
qed

lemma chunks7_length: "length (chunks7 xs) = (length xs + 6) div 7"
proof (induction xs rule: chunks7.induct)
  case (1 xs)
  show ?case
  proof (cases "xs = []")
    case True
    then show ?thesis by (simp add: chunks7_Nil)
  next
    case False
    show ?thesis
    proof (cases "length xs < 7")
      case True
      with False have "(length xs + 6) div 7 = 1" by (cases xs) auto
      with True False show ?thesis by (simp add: chunks7_short)
    next
      case ge: False
      then have "length xs + 6 = (length xs - 7 + 6) + 7" by simp
      then have "(length xs + 6) div 7 = Suc ((length xs - 7 + 6) div 7)"
        by (simp only: div_add_self2)
      with "1.IH" [OF False] show ?thesis by (simp add: chunks7_Cons [OF False])
    qed
  qed
qed

lemma chunks7_nth:
  "i < length (chunks7 xs) \<Longrightarrow> chunks7 xs ! i = take 7 (drop (7 * i) xs)"
proof (induction xs arbitrary: i rule: chunks7.induct)
  case (1 xs)
  show ?case
  proof (cases "xs = []")
    case True
    with "1.prems" show ?thesis by (simp add: chunks7_Nil)
  next
    case False
    note eq = chunks7_Cons [OF False]
    show ?thesis
    proof (cases i)
      case 0
      then show ?thesis using eq by simp
    next
      case (Suc j)
      with "1.prems" eq have "j < length (chunks7 (drop 7 xs))" by simp
      from "1.IH" [OF False this] show ?thesis using eq Suc by (simp add: add.commute)
    qed
  qed
qed

lemma chunks7_last_drop:
  assumes "length days mod 7 \<noteq> 0"
  shows "last (chunks7 days) = drop (7 * (length days div 7)) days"
proof -
  from assms have ne: "chunks7 days \<noteq> []" using chunks7_last by blast
  have "(length days + 6) div 7 = Suc (length days div 7)" using assms by presburger
  then have l: "length (chunks7 days) = Suc (length days div 7)" by (simp add: chunks7_length)
  have "last (chunks7 days) = chunks7 days ! (length days div 7)"
    using ne l by (simp add: last_conv_nth)
  also have "\<dots> = take 7 (drop (7 * (length days div 7)) days)"
    using l by (intro chunks7_nth) simp
  also have "\<dots> = drop (7 * (length days div 7)) days"
  proof -
    have "length days - 7 * (length days div 7) = length days mod 7"
      by (simp add: minus_mult_div_eq_mod)
    then have "length (drop (7 * (length days div 7)) days) \<le> 7" by simp
    then show ?thesis by simp
  qed
  finally show ?thesis .
qed

subsection \<open>The month grid in a time zone\<close>

text \<open>
  The functions above compute with calendar days alone. The program runs in the time
  zone of the viewer, where two things can happen to a \<open>Date\<close> that they leave out.
  \<^item> A local day may not exist: in Pacific/Apia the clocks went from the end of 29 December
    2011 to the start of 31 December. A local time that the zone skips is read with the
    offset in force before the transition, so a \<open>Date\<close> set to local midnight of a skipped
    day is local midnight of the next day.
  \<^item> A time value beyond 8.64e15 milliseconds from the epoch (100000000 days) is
    \<open>NaN\<close>, and the \<open>Date\<close> is an Invalid Date: its getters return \<open>NaN\<close>, every setter
    leaves it invalid, and every comparison with it is false.

  A zone is given by the list of the local days it skips, an Invalid Date is \<open>None\<close>.
  Every local day from -99999998 to 99999998 lies inside the range in every zone, first
  and last millisecond included; the months that hold the two ends of the range (April
  -271821 and September 275760) have their first or their last day outside the range in
  every zone, and the grid of every other month stays at least three days inside these
  bounds, so nothing depends on the days between the bound taken here and the ends.
  \<open>zone_day\<close> is the date a setter produces when the fields it computed are those of day
  \<open>d\<close>.
\<close>

record zone =
  skipped :: "int list"

definition in_Date_range :: "int \<Rightarrow> bool" where
  "in_Date_range d = (- 99999998 \<le> d \<and> d \<le> 99999998)"

definition zone_day :: "zone \<Rightarrow> int \<Rightarrow> int option" where
  "zone_day z d =
     (let landed = (if d \<in> set (skipped z) then d + 1 else d)
      in if in_Date_range landed then Some landed else None)"

text \<open>
  The date-fns functions again, on a valid date, with the date they produce read in the
  zone. They are given the day a valid \<open>Date\<close> holds; the source calls them on the result
  of one another, and an Invalid Date goes through each of them unchanged.
\<close>

definition setDate_tz :: "zone \<Rightarrow> int \<Rightarrow> int \<Rightarrow> int option" where
  "setDate_tz z d dt = zone_day z (MakeDay (getFullYear d) (getMonth d) dt)"

definition startOfMonth_tz :: "zone \<Rightarrow> int \<Rightarrow> int option" where
  "startOfMonth_tz z d = setDate_tz z d 1"

definition endOfMonth_tz :: "zone \<Rightarrow> int \<Rightarrow> int option" where
  "endOfMonth_tz z d =
     (let month = getMonth d in zone_day z (MakeDay (getFullYear d) (month + 1) 0))"

definition startOfWeek_tz :: "zone \<Rightarrow> int \<Rightarrow> int \<Rightarrow> int option" where
  "startOfWeek_tz z d weekStartsOn =
     (let day = getDay d;
          diff = (if day < weekStartsOn then 7 else 0) + day - weekStartsOn
      in setDate_tz z d (getDate d - diff))"

definition endOfWeek_tz :: "zone \<Rightarrow> int \<Rightarrow> int \<Rightarrow> int option" where
  "endOfWeek_tz z d weekStartsOn =
     (let day = getDay d;
          diff = (if day < weekStartsOn then - 7 else 0) + 6 - (day - weekStartsOn)
      in setDate_tz z d (getDate d + diff))"

definition addDays_tz :: "zone \<Rightarrow> int \<Rightarrow> int \<Rightarrow> int option" where
  "addDays_tz z d amount = setDate_tz z d (getDate d + amount)"

lemma zone_day_ge: "zone_day z d = Some d' \<Longrightarrow> d \<le> d'"
  by (auto simp: zone_day_def Let_def split: if_splits)

lemma setDate_tz_shift: "setDate_tz z d dt = zone_day z (d + (dt - getDate d))"
  using setDate_shift [of d dt] by (simp add: setDate_tz_def setDate_def)

lemma addDays_tz_eq: "addDays_tz z d n = zone_day z (d + n)"
  by (simp add: addDays_tz_def setDate_tz_shift)

text \<open>
  The loop of \<open>getMonthDays\<close>. The comparison \<^verbatim>\<open>day <= end\<close> is false as soon as one of the
  two dates is invalid. The loop ends because a setter never produces an earlier day than
  the one it computed (\<open>zone_day_ge\<close>).
\<close>

function getMonthDays_loop_tz :: "zone \<Rightarrow> int option \<Rightarrow> int option \<Rightarrow> int list \<Rightarrow> int list" where
  "getMonthDays_loop_tz z day endDay days =
     (case day of
        None \<Rightarrow> days
      | Some d \<Rightarrow>
          (case endDay of
             None \<Rightarrow> days
           | Some e \<Rightarrow>
               if d \<le> e then getMonthDays_loop_tz z (addDays_tz z d 1) endDay (days @ [d])
               else days))"
  by pat_completeness auto
termination
proof (relation "measure (\<lambda>(z, day, endDay, days).
    case day of None \<Rightarrow> 0 | Some d \<Rightarrow> (case endDay of None \<Rightarrow> 0 | Some e \<Rightarrow> nat (e - d + 1) + 1))")
  show "wf (measure (\<lambda>(z, day, endDay, days).
    case day of None \<Rightarrow> 0 | Some d \<Rightarrow> (case endDay of None \<Rightarrow> 0 | Some e \<Rightarrow> nat (e - d + 1) + 1)))"
    by simp
next
  fix z :: zone and day endDay :: "int option" and days :: "int list" and d e :: int
  assume "day = Some d" "endDay = Some e" "d \<le> e"
  then show "((z, addDays_tz z d 1, endDay, days @ [d]), (z, day, endDay, days))
      \<in> measure (\<lambda>(z, day, endDay, days).
    case day of None \<Rightarrow> 0 | Some d \<Rightarrow> (case endDay of None \<Rightarrow> 0 | Some e \<Rightarrow> nat (e - d + 1) + 1))"
    using zone_day_ge [of z "d + 1"]
    by (cases "zone_day z (d + 1)") (auto simp: addDays_tz_eq)
qed

declare getMonthDays_loop_tz.simps [simp del]

definition getMonthDays_tz :: "zone \<Rightarrow> int \<Rightarrow> int list" where
  "getMonthDays_tz z baseDate =
     (let start = (case startOfMonth_tz z baseDate of
                     None \<Rightarrow> None | Some d \<Rightarrow> startOfWeek_tz z d 0);
          endDay = (case endOfMonth_tz z baseDate of
                      None \<Rightarrow> None | Some d \<Rightarrow> endOfWeek_tz z d 0)
      in getMonthDays_loop_tz z start endDay [])"

subsubsection \<open>Where the zone makes no difference\<close>

lemma zone_day_regular:
  "d \<notin> set (skipped z) \<Longrightarrow> in_Date_range d \<Longrightarrow> zone_day z d = Some d"
  by (simp add: zone_day_def)

lemma getMonthDays_loop_tz_stop:
  "e < d \<Longrightarrow> getMonthDays_loop_tz z (Some d) (Some e) days = days"
  by (subst getMonthDays_loop_tz.simps) simp

lemma getMonthDays_loop_tz_None:
  "getMonthDays_loop_tz z None endDay days = days"
  by (subst getMonthDays_loop_tz.simps) simp

lemma getMonthDays_loop_tz_upto:
  assumes "\<forall>x. d \<le> x \<and> x \<le> e \<longrightarrow> x \<notin> set (skipped z) \<and> in_Date_range x"
  shows "getMonthDays_loop_tz z (Some d) (Some e) days = days @ [d..e]"
  using assms
proof (induction "nat (e - d + 1)" arbitrary: d days)
  case 0
  then have "e < d" by simp
  then show ?case by (simp add: getMonthDays_loop_tz_stop)
next
  case (Suc n)
  then have le: "d \<le> e" by simp
  have step: "getMonthDays_loop_tz z (Some d) (Some e) days
      = getMonthDays_loop_tz z (zone_day z (d + 1)) (Some e) (days @ [d])"
    using le by (subst getMonthDays_loop_tz.simps) (simp add: addDays_tz_eq)
  show ?case
  proof (cases "d + 1 \<le> e")
    case True
    with Suc.prems have "zone_day z (d + 1) = Some (d + 1)"
      by (intro zone_day_regular) simp_all
    moreover have "getMonthDays_loop_tz z (Some (d + 1)) (Some e) (days @ [d])
        = (days @ [d]) @ [d + 1..e]"
      using Suc.hyps(2) Suc.prems by (intro Suc.hyps(1)) simp_all
    ultimately show ?thesis using step le by (simp add: upto_rec1 [of d e])
  next
    case False
    with le have de: "d = e" by simp
    have "getMonthDays_loop_tz z (zone_day z (d + 1)) (Some e) (days @ [d]) = days @ [d]"
    proof (cases "zone_day z (d + 1)")
      case None
      then show ?thesis by (simp add: getMonthDays_loop_tz_None)
    next
      case (Some d')
      with zone_day_ge [OF Some] de show ?thesis by (simp add: getMonthDays_loop_tz_stop)
    qed
    with step de show ?thesis by (simp add: upto_rec1 [of e e])
  qed
qed

lemma getMonthDays_tz_regular:
  assumes r: "\<forall>d. startOfWeek (startOfMonth a) 0 \<le> d \<and> d \<le> endOfWeek (endOfMonth a) 0
                \<longrightarrow> d \<notin> set (skipped z) \<and> in_Date_range d"
  shows "getMonthDays_tz z a = getMonthDays a"
proof -
  let ?s = "startOfWeek (startOfMonth a) 0"
  let ?e = "endOfWeek (endOfMonth a) 0"
  have reg: "zone_day z d = Some d" if "?s \<le> d" "d \<le> ?e" for d
    using r that by (intro zone_day_regular) simp_all
  have s_le: "?s \<le> startOfMonth a" and e_ge: "endOfMonth a \<le> ?e"
    using grid_start(2) [of "startOfMonth a"] grid_end(2) [of "endOfMonth a"] by simp_all
  have som: "startOfMonth_tz z a = Some (startOfMonth a)"
  proof -
    have "startOfMonth_tz z a = zone_day z (startOfMonth a)"
      by (simp add: startOfMonth_tz_def setDate_tz_def startOfMonth_def setDate_def)
    also have "\<dots> = Some (startOfMonth a)"
      using s_le e_ge month_span [of a] by (intro reg) simp_all
    finally show ?thesis .
  qed
  have eom: "endOfMonth_tz z a = Some (endOfMonth a)"
  proof -
    have "endOfMonth_tz z a = zone_day z (endOfMonth a)"
      by (simp add: endOfMonth_tz_def endOfMonth_def Let_def)
    also have "\<dots> = Some (endOfMonth a)"
      using s_le e_ge month_span [of a] by (intro reg) simp_all
    finally show ?thesis .
  qed
  have sow: "startOfWeek_tz z (startOfMonth a) 0 = Some ?s"
  proof -
    have "startOfWeek_tz z (startOfMonth a) 0 = zone_day z ?s"
      by (simp add: startOfWeek_tz_def startOfWeek_def setDate_tz_def setDate_def Let_def)
    also have "\<dots> = Some ?s"
      using s_le e_ge month_span [of a] by (intro reg) simp_all
    finally show ?thesis .
  qed
  have eow: "endOfWeek_tz z (endOfMonth a) 0 = Some ?e"
  proof -
    have "endOfWeek_tz z (endOfMonth a) 0 = zone_day z ?e"
      by (simp add: endOfWeek_tz_def endOfWeek_def setDate_tz_def setDate_def Let_def)
    also have "\<dots> = Some ?e"
      using s_le e_ge month_span [of a] by (intro reg) simp_all
    finally show ?thesis .
  qed
  have "getMonthDays_tz z a = getMonthDays_loop_tz z (Some ?s) (Some ?e) []"
    by (simp add: getMonthDays_tz_def som eom sow eow)
  also have "\<dots> = [] @ [?s..?e]" using r by (intro getMonthDays_loop_tz_upto) simp
  finally show ?thesis by (simp add: getMonthDays_upto)
qed

subsection \<open>Holidays\<close>

text \<open>\<^verbatim>\<open>type Holiday = { date: string; name: string; type: "regular" | "work" }\<close>\<close>

datatype holiday_type = Regular | Work

record holiday =
  date :: string
  name :: string
  type :: holiday_type

subsection \<open>The remote component: fetching and normalising\<close>

text \<open>
  A field of a record of the service is either a string or not usable as one
  (\<open>Undefined\<close>: absent, \<open>null\<close> or another falsy value). Truthy values that are not
  strings are outside the model: the service delivers strings.
\<close>

datatype js_value = Undefined | Str string

record raw_holiday =
  raw_date :: js_value
  localName :: js_value

fun truthy :: "js_value \<Rightarrow> bool" where
  "truthy Undefined = False"
| "truthy (Str s) = (s \<noteq> [])"

fun is_string :: "js_value \<Rightarrow> bool" where
  "is_string Undefined = False"
| "is_string (Str s) = True"

fun text_of :: "js_value \<Rightarrow> string" where
  "text_of Undefined = ''undefined''"
| "text_of (Str s) = s"

text \<open>
  \<open>new Date(dateStr)\<close> on the date-only form \<open>YYYY-MM-DD\<close> (month 01 to 12, day 01 to 31),
  the form in which the service sends its dates: ECMAScript reads it as midnight UTC of
  that date; the result here is the number of the UTC day. Every other string is taken as
  an invalid date (\<open>None\<close>), whose \<open>getDay()\<close> is \<open>NaN\<close>, so that its record passes the
  weekend test. That is what happens to a string that is no date. It is not what happens
  to a date written in another form: a date-time form such as \<open>2025-06-07T00:00:00\<close> is
  read in local time, and the reading of a form outside the ECMAScript format is left to
  the engine. On such strings \<open>isWeekend\<close> below may differ from the program; the
  statements about the filter are statements about \<open>keep_raw\<close> as it is defined here, and
  the records of the examples all carry date-only strings.
\<close>

definition isDigit :: "char \<Rightarrow> bool" where
  "isDigit c = (48 \<le> (of_char c :: nat) \<and> (of_char c :: nat) \<le> 57)"

definition digits_value :: "string \<Rightarrow> nat" where
  "digits_value s = foldl (\<lambda>a c. 10 * a + ((of_char c :: nat) - 48)) 0 s"

definition Date_parse :: "string \<Rightarrow> int option" where
  "Date_parse s =
     (if length s = 10 \<and> list_all isDigit (take 4 s) \<and> s ! 4 = CHR ''-''
         \<and> list_all isDigit (take 2 (drop 5 s)) \<and> s ! 7 = CHR ''-''
         \<and> list_all isDigit (drop 8 s)
      then
        let y = int (digits_value (take 4 s));
            m = int (digits_value (take 2 (drop 5 s)));
            d = int (digits_value (drop 8 s))
        in if 1 \<le> m \<and> m \<le> 12 \<and> 1 \<le> d \<and> d \<le> 31 then Some (MakeDay y (m - 1) d) else None
      else None)"

text \<open>
  \<^verbatim>\<open>const day = new Date(dateStr).getDay(); return day === 0 || day === 6;\<close>
  \<open>getDay\<close> reads the weekday in local time. \<open>utcOffset\<close> is the offset of the viewer's
  zone in minutes, local time minus UTC: the instant that is midnight UTC of day \<open>utcDay\<close>
  lies on the local day \<open>(utcDay * 1440 + utcOffset) div 1440\<close>.
\<close>

definition isWeekend :: "int \<Rightarrow> string \<Rightarrow> bool" where
  "isWeekend utcOffset dateStr =
     (case Date_parse dateStr of
        None \<Rightarrow> False
      | Some utcDay \<Rightarrow>
          (let day = getDay ((utcDay * 1440 + utcOffset) div 1440) in day = 0 \<or> day = 6))"

text \<open>The callback of \<open>data.filter\<close>.\<close>

definition keep_raw :: "int \<Rightarrow> raw_holiday \<Rightarrow> bool" where
  "keep_raw utcOffset h =
     (if \<not> truthy (raw_date h) \<or> \<not> is_string (localName h) then False
      else if isWeekend utcOffset (text_of (raw_date h)) then False
      else True)"

text \<open>
  \<^verbatim>\<open>const key = `${h.date}|${h.localName.trim()}`; if (seen.has(key)) return false; seen.add(key); return true;\<close>
\<close>

definition holiday_key :: "raw_holiday \<Rightarrow> string" where
  "holiday_key h = text_of (raw_date h) @ ''|'' @ trim (text_of (localName h))"

fun uniqueHolidays :: "string set \<Rightarrow> raw_holiday list \<Rightarrow> raw_holiday list" where
  "uniqueHolidays seen [] = []"
| "uniqueHolidays seen (h # hs) =
     (let key = holiday_key h
      in if key \<in> seen then uniqueHolidays seen hs
         else h # uniqueHolidays (insert key seen) hs)"

definition parsed_holiday :: "raw_holiday \<Rightarrow> holiday" where
  "parsed_holiday h =
     \<lparr>date = text_of (raw_date h), name = trim (text_of (localName h)), type = Regular\<rparr>"

text \<open>From the response body to the new holiday set: \<open>filtered\<close>, \<open>uniqueHolidays\<close>, \<open>parsed\<close>.\<close>

definition parsed :: "int \<Rightarrow> raw_holiday list \<Rightarrow> holiday list" where
  "parsed utcOffset data =
     (let filtered = filter (keep_raw utcOffset) data;
          unique = uniqueHolidays {} filtered
      in map parsed_holiday unique)"

text \<open>A holiday of the set, written back as a record of the service.\<close>

definition raw_of :: "holiday \<Rightarrow> raw_holiday" where
  "raw_of h = \<lparr>raw_date = Str (date h), localName = Str (name h)\<rparr>"

text \<open>The state of the remote component (\<open>useState\<close>).\<close>

record view_state =
  baseDate :: int
  countryCode :: string
  holidays :: "holiday list"
  showOnlyHolidays :: bool
  errorMessage :: "string option"

text \<open>
  What a request to the service comes to: \<open>fetch\<close> rejects, the status is not ok, the
  body cannot be used (\<open>res.json()\<close> rejects, or the data is no array of objects, so that
  \<open>filter\<close> throws), or the body is a list of records. \<open>fetchHolidays\<close> returns the new
  state and the requests it issued, each a pair of year and country code.
\<close>

datatype response = Rejected | NotOk | Unusable | Body "raw_holiday list"

definition fetchHolidays ::
  "int \<Rightarrow> (int \<Rightarrow> string \<Rightarrow> response) \<Rightarrow> view_state \<Rightarrow> view_state \<times> (int \<times> string) list" where
  "fetchHolidays utcOffset service st =
     (let st1 = st\<lparr>errorMessage := None\<rparr>
      in if countryCode st = ''IN''
         then (st1\<lparr>holidays := [],
                   errorMessage := Some ''Holiday data for India is not available from Nager API.''\<rparr>,
               [])
         else
           let year = getFullYear (baseDate st)
           in case service year (countryCode st) of
                Body data \<Rightarrow> (st1\<lparr>holidays := parsed utcOffset data\<rparr>, [(year, countryCode st)])
              | _ \<Rightarrow> (st1\<lparr>holidays := [], errorMessage := Some ''Failed to load holiday data.''\<rparr>,
                       [(year, countryCode st)]))"

subsection \<open>The remote component: counting and rendering\<close>

text \<open>
  \<open>uniqueDates\<close> is a \<open>Set\<close> of date strings; the result is its size. The holiday set is a
  parameter here, a variable of the component in the source.
\<close>

definition countHolidaysInWeekByMonth ::
  "holiday list \<Rightarrow> int list \<Rightarrow> holiday_type \<Rightarrow> int \<Rightarrow> nat" where
  "countHolidaysInWeekByMonth hs week ty currentMonth =
     card (foldl (\<lambda>uniqueDates day.
             let dateStr = format_yyyy_MM_dd day;
                 isInCurrentMonth = (getMonth day = currentMonth)
             in if \<not> isInCurrentMonth then uniqueDates
                else let matching = filter (\<lambda>h. date h = dateStr \<and> type h = ty) hs
                     in if length matching > 0 then insert dateStr uniqueDates else uniqueDates)
           {} week)"

text \<open>
  What is rendered. The two icons are U+1F3E2 (office building, for a work holiday) and
  U+1F389 (party popper, for a regular holiday). A cell suppressed by the filter is the
  empty \<open>div\<close>, \<open>EmptyCell\<close>. The badge of a cell is the class of its \<open>div\<close> and the icons
  in it; \<open>None\<close> when the cell has no badge.
\<close>

datatype icon = OfficeIcon | PartyIcon

record day_cell =
  bgColor :: string
  textColor :: string
  title :: string
  dayText :: string
  badge :: "(string \<times> icon list) option"

datatype cell = EmptyCell | DayCell day_cell

record week_row =
  rowClass :: string
  cells :: "cell list"

text \<open>\<open>workCount\<close> and \<open>regularCount\<close> of a week, in this order.\<close>

definition weekCounts :: "view_state \<Rightarrow> int \<Rightarrow> int list \<Rightarrow> nat \<times> nat" where
  "weekCounts st monthDate week =
     (countHolidaysInWeekByMonth (holidays st) week Work (getMonth monthDate),
      countHolidaysInWeekByMonth (holidays st) week Regular (getMonth monthDate))"

definition weekClass :: "bool \<Rightarrow> nat \<Rightarrow> nat \<Rightarrow> string" where
  "weekClass overrideWeekDarkGrey workCount regularCount =
     (let weekClass = ''mb-1 rounded ''
      in if overrideWeekDarkGrey then weekClass @ ''bg-gray-600 text-white ''
         else if workCount > 1 then weekClass @ ''bg-green-200 ''
         else if workCount = 1 then weekClass @ ''border-2 border-green-400 ''
         else if regularCount = 1 then weekClass @ ''border-2 border-gray-300 ''
         else weekClass)"

text \<open>
  One cell. \<open>today\<close> is the day of the viewer's clock: \<open>isToday(day)\<close> is \<open>day = today\<close>.
\<close>

definition renderDay :: "view_state \<Rightarrow> int \<Rightarrow> int \<Rightarrow> bool \<Rightarrow> int \<Rightarrow> cell" where
  "renderDay st today monthDate overrideWeekDarkGrey day =
     (let dayStr = format_yyyy_MM_dd day;
          isCurrentMonth = (getMonth monthDate = getMonth day);
          dayHolidays = (if isCurrentMonth then filter (\<lambda>h. date h = dayStr) (holidays st) else [])
      in if showOnlyHolidays st \<and> length dayHolidays = 0 then EmptyCell
         else
           let hasWorkHoliday = list_ex (\<lambda>h. type h = Work) dayHolidays;
               hasRegularHoliday = list_ex (\<lambda>h. type h = Regular) dayHolidays;
               bgColor =
                 (if \<not> overrideWeekDarkGrey
                  then (if day = today then ''bg-blue-300''
                        else if hasWorkHoliday then ''bg-green-300''
                        else if hasRegularHoliday then ''bg-yellow-200''
                        else [])
                  else []);
               textColor =
                 (if overrideWeekDarkGrey then ''text-white''
                  else if isCurrentMonth then ''text-gray-900''
                  else ''text-gray-400'')
           in DayCell
                \<lparr>bgColor = bgColor, textColor = textColor,
                 title = join '', '' (map name dayHolidays),
                 dayText = format_d day,
                 badge =
                   (if length dayHolidays > 0
                    then Some (if overrideWeekDarkGrey then ''text-white'' else ''text-gray-700'',
                               if list_ex (\<lambda>h. type h = Work) dayHolidays then [OfficeIcon]
                               else if list_ex (\<lambda>h. type h = Regular) dayHolidays then [PartyIcon]
                               else [])
                    else None)\<rparr>)"

definition renderWeek :: "view_state \<Rightarrow> int \<Rightarrow> int \<Rightarrow> int list \<Rightarrow> week_row" where
  "renderWeek st today monthDate week =
     (let workCount = fst (weekCounts st monthDate week);
          regularCount = snd (weekCounts st monthDate week);
          overrideWeekDarkGrey = (regularCount \<ge> 2)
      in \<lparr>rowClass = ''grid grid-cols-7 gap-1 ''
                       @ trim (weekClass overrideWeekDarkGrey workCount regularCount),
          cells = map (renderDay st today monthDate overrideWeekDarkGrey) week\<rparr>)"

definition renderMonth :: "view_state \<Rightarrow> int \<Rightarrow> int \<Rightarrow> week_row list" where
  "renderMonth st today monthDate =
     (let days = getMonthDays monthDate; weeks = getWeeks days
      in map (renderWeek st today monthDate) weeks)"

subsection \<open>The import component\<close>

record view_state_ics =
  baseDate_ics :: int
  holidays_ics :: "holiday list"
  showOnlyHolidays_ics :: bool

text \<open>The mock data the component starts with.\<close>

definition initial_holidays_ics :: "holiday list" where
  "initial_holidays_ics =
     [\<lparr>date = ''2025-06-10'', name = ''Company Retreat'', type = Work\<rparr>,
      \<lparr>date = ''2025-06-10'', name = ''National Day'', type = Regular\<rparr>,
      \<lparr>date = ''2025-07-04'', name = ''Independence Day'', type = Regular\<rparr>]"

text \<open>
  The calendar file after \<open>ICAL.parse\<close>: malformed, or the list of its events. Of an event
  the handler reads the start date (here its local day; \<open>None\<close> when the event has none,
  so that \<open>event.startDate.toJSDate()\<close> throws) and the summary (\<open>None\<close> when absent).
  \<open>parsedHolidays\<close> is \<open>None\<close> when the mapping throws.
\<close>

record vevent =
  startDate :: "int option"
  summary :: "string option"

datatype ics_text = Malformed | Calendar "vevent list"

fun parsedHolidays :: "vevent list \<Rightarrow> holiday list option" where
  "parsedHolidays [] = Some []"
| "parsedHolidays (event # rest) =
     (case startDate event of
        None \<Rightarrow> None
      | Some day \<Rightarrow>
          (case parsedHolidays rest of
             None \<Rightarrow> None
           | Some hs \<Rightarrow>
               Some (\<lparr>date = format_yyyy_MM_dd day,
                      name = (case summary event of
                                None \<Rightarrow> ''Unnamed Event''
                              | Some s \<Rightarrow> if s = [] then ''Unnamed Event'' else s),
                      type = Regular\<rparr> # hs)))"

text \<open>
  The handler returns the new state and the alerts shown. The file is \<open>None\<close> when the
  user selected none.
\<close>

definition handleICSFile :: "ics_text option \<Rightarrow> view_state_ics \<Rightarrow> view_state_ics \<times> string list" where
  "handleICSFile file st =
     (case file of
        None \<Rightarrow> (st, [])
      | Some Malformed \<Rightarrow> (st, [''Failed to parse ICS file. Please check console.''])
      | Some (Calendar vevents) \<Rightarrow>
          (case parsedHolidays vevents of
             None \<Rightarrow> (st, [''Failed to parse ICS file. Please check console.''])
           | Some hs \<Rightarrow> (st\<lparr>holidays_ics := hs, showOnlyHolidays_ics := False\<rparr>, [])))"

text \<open>\<^verbatim>\<open>week.reduce((count, day) => count + holidays.filter(...).length, 0)\<close>\<close>

definition countWorkHolidaysInWeek :: "holiday list \<Rightarrow> int list \<Rightarrow> nat" where
  "countWorkHolidaysInWeek hs week =
     foldl (\<lambda>count day.
              let dayStr = format_yyyy_MM_dd day
              in count + length (filter (\<lambda>h. date h = dayStr \<and> type h = Work) hs))
       0 week"

definition weekClass_ics :: "nat \<Rightarrow> string" where
  "weekClass_ics workHolidayCount =
     (if workHolidayCount = 1 then ''border-2 border-green-400 rounded mb-1''
      else if workHolidayCount > 1 then ''bg-green-200 rounded mb-1''
      else ''mb-1'')"

definition renderDay_ics :: "view_state_ics \<Rightarrow> int \<Rightarrow> int \<Rightarrow> int \<Rightarrow> cell" where
  "renderDay_ics st today monthDate day =
     (let dayStr = format_yyyy_MM_dd day;
          dayHolidays = filter (\<lambda>h. date h = dayStr) (holidays_ics st)
      in if showOnlyHolidays_ics st \<and> length dayHolidays = 0 then EmptyCell
         else
           let hasWorkHoliday = list_ex (\<lambda>h. type h = Work) dayHolidays;
               hasRegularHoliday = list_ex (\<lambda>h. type h = Regular) dayHolidays;
               isCurrentMonth = (getMonth monthDate = getMonth day);
               bgColor =
                 (if day = today then ''bg-blue-300''
                  else if hasWorkHoliday then ''bg-green-300''
                  else if hasRegularHoliday then ''bg-yellow-200''
                  else []);
               textColor = (if isCurrentMonth then ''text-gray-900'' else ''text-gray-400'')
           in DayCell
                \<lparr>bgColor = bgColor, textColor = textColor, title = [],
                 dayText = format_d day,
                 badge =
                   (if length dayHolidays > 0
                    then Some (''text-gray-700'',
                               map (\<lambda>h. if type h = Work then OfficeIcon else PartyIcon) dayHolidays)
                    else None)\<rparr>)"

definition renderWeek_ics :: "view_state_ics \<Rightarrow> int \<Rightarrow> int \<Rightarrow> int list \<Rightarrow> week_row" where
  "renderWeek_ics st today monthDate week =
     (let workHolidayCount = countWorkHolidaysInWeek (holidays_ics st) week
      in \<lparr>rowClass = ''grid grid-cols-7 gap-1 '' @ weekClass_ics workHolidayCount,
          cells = map (renderDay_ics st today monthDate) week\<rparr>)"

definition renderMonth_ics :: "view_state_ics \<Rightarrow> int \<Rightarrow> int \<Rightarrow> week_row list" where
  "renderMonth_ics st today monthDate =
     (let days = getMonthDays monthDate; weeks = getWeeks days
      in map (renderWeek_ics st today monthDate) weeks)"

subsection \<open>Example data\<close>

text \<open>
  The week from Sunday 8 June to Saturday 14 June 2025 (10 June is day 20249), a holiday
  set with two regular and three work holiday days in it, and a state of the remote
  component holding that set.
\<close>

definition june_week :: "int list" where
  "june_week = [20247, 20248, 20249, 20250, 20251, 20252, 20253]"

definition busy_holidays :: "holiday list" where
  "busy_holidays =
     [\<lparr>date = ''2025-06-09'', name = ''Whit Monday'', type = Regular\<rparr>,
      \<lparr>date = ''2025-06-10'', name = ''National Day'', type = Regular\<rparr>,
      \<lparr>date = ''2025-06-10'', name = ''Company Retreat'', type = Work\<rparr>,
      \<lparr>date = ''2025-06-11'', name = ''Offsite'', type = Work\<rparr>,
      \<lparr>date = ''2025-06-12'', name = ''Hack Day'', type = Work\<rparr>]"

definition busy_state :: view_state where
  "busy_state =
     \<lparr>baseDate = 20249, countryCode = ''US'', holidays = busy_holidays,
      showOnlyHolidays = False, errorMessage = None\<rparr>"

text \<open>
  More example data: the import component as it starts, a state of the remote component
  holding Independence Day only, a calendar file with the same event twice, an empty state
  of the import component, two work holidays on 10 June 2025, and the week from Sunday
  29 June to Saturday 5 July 2025, the last week of the grid of June.
\<close>

definition initial_state_ics :: view_state_ics where
  "initial_state_ics =
     \<lparr>baseDate_ics = 20249, holidays_ics = initial_holidays_ics, showOnlyHolidays_ics = False\<rparr>"

definition july_state :: view_state where
  "july_state =
     \<lparr>baseDate = 20249, countryCode = ''US'',
      holidays = [\<lparr>date = ''2025-07-04'', name = ''Independence Day'', type = Regular\<rparr>],
      showOnlyHolidays = False, errorMessage = None\<rparr>"

definition twin_events :: "vevent list" where
  "twin_events =
     [\<lparr>startDate = Some 20249, summary = Some ''National Day''\<rparr>,
      \<lparr>startDate = Some 20249, summary = Some ''National Day''\<rparr>]"

definition empty_state_ics :: view_state_ics where
  "empty_state_ics = \<lparr>baseDate_ics = 20249, holidays_ics = [], showOnlyHolidays_ics = True\<rparr>"


definition july_week :: "int list" where
  "july_week = [20268, 20269, 20270, 20271, 20272, 20273, 20274]"

text \<open>
  A state of the remote component holding the mock data of the import component, in which
  the week of 10 June 2025 has one work and one regular holiday day, and a state with the
  filter on that holds Independence Day only.
\<close>

definition retreat_state :: view_state where
  "retreat_state =
     \<lparr>baseDate = 20249, countryCode = ''US'', holidays = initial_holidays_ics,
      showOnlyHolidays = False, errorMessage = None\<rparr>"

definition filtered_state :: view_state where
  "filtered_state =
     \<lparr>baseDate = 20249, countryCode = ''US'',
      holidays = [\<lparr>date = ''2025-07-04'', name = ''Independence Day'', type = Regular\<rparr>],
      showOnlyHolidays = True, errorMessage = None\<rparr>"

text \<open>
  A zone that skips no day, and Pacific/Apia, which skipped 30 December 2011 (day 15338).
\<close>

definition regular_zone :: zone where
  "regular_zone = \<lparr>skipped = []\<rparr>"

definition apia :: zone where
  "apia = \<lparr>skipped = [15338]\<rparr>"


subsection \<open>Facts about date strings\<close>











lemma MonthFromDay_mono: "x \<le> y \<Longrightarrow> MonthFromDay x leap \<le> MonthFromDay y leap"
  by (simp add: MonthFromDay_def)





subsection \<open>Facts about the example week and the week classes\<close>

lemma june_week_format:
  "format_yyyy_MM_dd 20247 = ''2025-06-08''" "format_yyyy_MM_dd 20248 = ''2025-06-09''"
  "format_yyyy_MM_dd 20249 = ''2025-06-10''" "format_yyyy_MM_dd 20250 = ''2025-06-11''"
  "format_yyyy_MM_dd 20251 = ''2025-06-12''" "format_yyyy_MM_dd 20252 = ''2025-06-13''"
  "format_yyyy_MM_dd 20253 = ''2025-06-14''"
  by code_simp+

lemma june_week_month:
  "getMonth 20247 = 5" "getMonth 20248 = 5" "getMonth 20249 = 5" "getMonth 20250 = 5"
  "getMonth 20251 = 5" "getMonth 20252 = 5" "getMonth 20253 = 5"
  by code_simp+

lemma trim_weekClass:
  "trim ''mb-1 rounded bg-gray-600 text-white '' = ''mb-1 rounded bg-gray-600 text-white''"
  "trim ''mb-1 rounded bg-green-200 '' = ''mb-1 rounded bg-green-200''"
  "trim ''mb-1 rounded border-2 border-green-400 '' = ''mb-1 rounded border-2 border-green-400''"
  "trim ''mb-1 rounded border-2 border-gray-300 '' = ''mb-1 rounded border-2 border-gray-300''"
  "trim ''mb-1 rounded '' = ''mb-1 rounded''"
  by (simp_all add: trim_def isWhiteSpace_def)

lemma renderDay_override:
  "renderDay st today monthDate True day = EmptyCell
   \<or> (\<exists>d. renderDay st today monthDate True day = DayCell d \<and> bgColor d = [])"
  by (simp add: renderDay_def Let_def)

lemma busy_counts: "weekCounts busy_state 20249 june_week = (3, 2)"
  by (simp add: weekCounts_def countHolidaysInWeekByMonth_def june_week_def busy_state_def
      busy_holidays_def june_week_format june_week_month)

lemma list_ex_types:
  "dh \<noteq> [] \<Longrightarrow> \<not> list_ex (\<lambda>h. type h = Work) dh \<Longrightarrow> list_ex (\<lambda>h. type h = Regular) dh"
proof (cases dh)
  case Nil
  assume "dh \<noteq> []"
  with Nil show ?thesis by simp
next
  case (Cons h hs)
  assume "\<not> list_ex (\<lambda>h. type h = Work) dh"
  with Cons have "type h \<noteq> Work" by simp
  then have "type h = Regular" by (cases "type h") simp_all
  with Cons show ?thesis by simp
qed

lemma july_4_fields:
  "format_yyyy_MM_dd 20273 = ''2025-07-04''" "getMonth 20273 = 6" "format_d 20273 = ''4''"
  "format_d 20249 = ''10''"
  by code_simp+

lemma renderDay_ics_june_10:
  "renderDay_ics initial_state_ics 20240 20249 20249
     = DayCell \<lparr>bgColor = ''bg-green-300'', textColor = ''text-gray-900'', title = [],
                dayText = ''10'', badge = Some (''text-gray-700'', [OfficeIcon, PartyIcon])\<rparr>"
  by (simp add: renderDay_ics_def initial_state_ics_def initial_holidays_ics_def Let_def
      june_week_format june_week_month july_4_fields)

subsection \<open>Cells of a week\<close>

text \<open>
  The cell of a day within its week, and the cell in full when the week is not in
  override mode.
\<close>

lemma renderWeek_cells:
  "snd (weekCounts st monthDate week) < 2 \<Longrightarrow> i < length week \<Longrightarrow>
   cells (renderWeek st today monthDate week) ! i = renderDay st today monthDate False (week ! i)"
  by (simp add: renderWeek_def Let_def)

lemma renderWeek_ics_cells:
  "i < length week \<Longrightarrow>
   cells (renderWeek_ics sti today monthDate week) ! i = renderDay_ics sti today monthDate (week ! i)"
  by (simp add: renderWeek_ics_def Let_def)

lemma renderDay_plain:
  "renderDay st today monthDate False day =
     (if showOnlyHolidays st
         \<and> (if getMonth monthDate = getMonth day
             then filter (\<lambda>h. date h = format_yyyy_MM_dd day) (holidays st) else []) = []
      then EmptyCell
      else DayCell
        \<lparr>bgColor =
           (if day = today then ''bg-blue-300''
            else if list_ex (\<lambda>h. type h = Work)
                     (if getMonth monthDate = getMonth day
                      then filter (\<lambda>h. date h = format_yyyy_MM_dd day) (holidays st) else [])
            then ''bg-green-300''
            else if list_ex (\<lambda>h. type h = Regular)
                     (if getMonth monthDate = getMonth day
                      then filter (\<lambda>h. date h = format_yyyy_MM_dd day) (holidays st) else [])
            then ''bg-yellow-200''
            else []),
         textColor = (if getMonth monthDate = getMonth day then ''text-gray-900'' else ''text-gray-400''),
         title = join '', '' (map name
                     (if getMonth monthDate = getMonth day
                      then filter (\<lambda>h. date h = format_yyyy_MM_dd day) (holidays st) else [])),
         dayText = format_d day,
         badge =
           (if (if getMonth monthDate = getMonth day
                then filter (\<lambda>h. date h = format_yyyy_MM_dd day) (holidays st) else []) = []
            then None
            else Some (''text-gray-700'',
                       if list_ex (\<lambda>h. type h = Work)
                            (filter (\<lambda>h. date h = format_yyyy_MM_dd day) (holidays st))
                       then [OfficeIcon] else [PartyIcon]))\<rparr>)"
proof (cases "(if getMonth monthDate = getMonth day
             then filter (\<lambda>h. date h = format_yyyy_MM_dd day) (holidays st) else []) = []")
  case True
  then show ?thesis unfolding renderDay_def Let_def by simp
next
  case False
  then have m: "getMonth monthDate = getMonth day"
    and ne: "filter (\<lambda>h. date h = format_yyyy_MM_dd day) (holidays st) \<noteq> []"
    by (simp_all split: if_splits)
  show ?thesis
    using list_ex_types [OF ne] ne unfolding renderDay_def Let_def by (simp add: m)
qed

lemma renderDay_ics_plain:
  "renderDay_ics sti today monthDate day =
     (if showOnlyHolidays_ics sti
         \<and> filter (\<lambda>h. date h = format_yyyy_MM_dd day) (holidays_ics sti) = []
      then EmptyCell
      else DayCell
        \<lparr>bgColor =
           (if day = today then ''bg-blue-300''
            else if list_ex (\<lambda>h. type h = Work)
                     (filter (\<lambda>h. date h = format_yyyy_MM_dd day) (holidays_ics sti))
            then ''bg-green-300''
            else if list_ex (\<lambda>h. type h = Regular)
                     (filter (\<lambda>h. date h = format_yyyy_MM_dd day) (holidays_ics sti))
            then ''bg-yellow-200''
            else []),
         textColor = (if getMonth monthDate = getMonth day then ''text-gray-900'' else ''text-gray-400''),
         title = [],
         dayText = format_d day,
         badge =
           (if filter (\<lambda>h. date h = format_yyyy_MM_dd day) (holidays_ics sti) = [] then None
            else Some (''text-gray-700'',
                       map (\<lambda>h. if type h = Work then OfficeIcon else PartyIcon)
                         (filter (\<lambda>h. date h = format_yyyy_MM_dd day) (holidays_ics sti))))\<rparr>)"
  unfolding renderDay_ics_def Let_def by simp

lemma retreat_counts: "weekCounts retreat_state 20249 june_week = (1, 1)"
  by (simp add: weekCounts_def countHolidaysInWeekByMonth_def june_week_def retreat_state_def
      initial_holidays_ics_def june_week_format june_week_month)

lemma renderDay_retreat_june_10:
  "renderDay retreat_state 20240 20249 False 20249
     = DayCell \<lparr>bgColor = ''bg-green-300'', textColor = ''text-gray-900'',
                title = ''Company Retreat, National Day'',
                dayText = ''10'', badge = Some (''text-gray-700'', [OfficeIcon])\<rparr>"
  by (simp add: renderDay_def retreat_state_def initial_holidays_ics_def Let_def
      june_week_format june_week_month july_4_fields)

lemma july_week_fields:
  "getMonth 20268 = 5" "getMonth 20269 = 5" "getMonth 20270 = 6" "getMonth 20271 = 6"
  "getMonth 20272 = 6" "getMonth 20274 = 6"
  "format_yyyy_MM_dd 20268 = ''2025-06-29''" "format_yyyy_MM_dd 20269 = ''2025-06-30''"
  by code_simp+

lemma july_counts: "weekCounts july_state 20249 july_week = (0, 0)"
  by (simp add: weekCounts_def countHolidaysInWeekByMonth_def july_state_def july_week_def
      june_week_month july_4_fields july_week_fields)

lemma filtered_counts: "weekCounts filtered_state 20249 june_week = (0, 0)"
  by (simp add: weekCounts_def countHolidaysInWeekByMonth_def june_week_def filtered_state_def
      june_week_format june_week_month)

lemma renderDay_filtered_today:
  "renderDay filtered_state 20249 20249 False 20249 = EmptyCell"
  by (simp add: renderDay_def filtered_state_def Let_def june_week_format june_week_month)

lemma renderDay_july_4:
  "renderDay july_state 20240 20249 False 20273
     = DayCell \<lparr>bgColor = [], textColor = ''text-gray-400'', title = [],
                dayText = ''4'', badge = None\<rparr>"
  by (simp add: renderDay_def july_state_def Let_def june_week_month july_4_fields)

subsection \<open>Facts about the normalisation of fetched records\<close>

lemma dropWhile_rev_head:
  assumes "t = [] \<or> \<not> P (hd t)"
  shows "dropWhile P (rev (dropWhile P (rev t))) = rev (dropWhile P (rev t))"
proof (cases t)
  case Nil
  then show ?thesis by simp
next
  case (Cons a u)
  with assms have na: "\<not> P a" by simp
  have "dropWhile P (rev u @ [a]) = dropWhile P (rev u) @ [a]"
    using na by (simp add: dropWhile_append)
  then have "rev (dropWhile P (rev t)) = a # rev (dropWhile P (rev u))"
    using Cons by simp
  then show ?thesis using na by simp
qed

lemma trim_idem: "trim (trim s) = trim s"
proof -
  let ?t = "dropWhile isWhiteSpace s"
  have h: "?t = [] \<or> \<not> isWhiteSpace (hd ?t)"
    using hd_dropWhile [of isWhiteSpace s] by blast
  have "trim (trim s)
      = rev (dropWhile isWhiteSpace (rev (dropWhile isWhiteSpace (rev (dropWhile isWhiteSpace (rev ?t))))))"
    by (simp add: trim_def)
  also have "\<dots> = rev (dropWhile isWhiteSpace (rev (rev (dropWhile isWhiteSpace (rev ?t)))))"
    using dropWhile_rev_head [of "dropWhile isWhiteSpace s" isWhiteSpace, OF h] by simp
  also have "\<dots> = rev (dropWhile isWhiteSpace (rev ?t))"
    by (simp add: dropWhile_idem)
  finally show ?thesis by (simp add: trim_def)
qed

lemma uniqueHolidays_snoc:
  "uniqueHolidays seen (xs @ [x])
     = uniqueHolidays seen xs
       @ (if holiday_key x \<in> seen \<union> holiday_key ` set xs then [] else [x])"
proof (induction xs arbitrary: seen)
  case Nil
  show ?case by simp
next
  case (Cons a xs)
  show ?case
  proof (cases "holiday_key a \<in> seen")
    case True
    then have "seen \<union> holiday_key ` set (a # xs) = seen \<union> holiday_key ` set xs" by auto
    with True Cons.IH [of seen] show ?thesis by (simp add: Let_def)
  next
    case False
    have "seen \<union> holiday_key ` set (a # xs) = insert (holiday_key a) seen \<union> holiday_key ` set xs"
      by auto
    with False Cons.IH [of "insert (holiday_key a) seen"] show ?thesis
      by (simp add: Let_def)
  qed
qed

lemma uniqueHolidays_keys:
  "holiday_key ` set (uniqueHolidays seen xs) = holiday_key ` set xs - seen"
  by (induction xs arbitrary: seen) (auto simp: Let_def)

lemma uniqueHolidays_distinct: "distinct (map holiday_key (uniqueHolidays seen xs))"
proof (induction xs arbitrary: seen)
  case Nil
  show ?case by simp
next
  case (Cons a xs)
  have "holiday_key a \<notin> holiday_key ` set (uniqueHolidays (insert (holiday_key a) seen) xs)"
    by (simp add: uniqueHolidays_keys)
  with Cons.IH show ?case by (simp add: Let_def)
qed

lemma uniqueHolidays_subset: "set (uniqueHolidays seen xs) \<subseteq> set xs"
  by (induction xs arbitrary: seen) (auto simp: Let_def)

lemma uniqueHolidays_fixed:
  "distinct (map holiday_key xs) \<Longrightarrow> holiday_key ` set xs \<inter> seen = {}
   \<Longrightarrow> uniqueHolidays seen xs = xs"
proof (induction xs arbitrary: seen)
  case Nil
  show ?case by simp
next
  case (Cons a xs)
  from Cons.prems have a: "holiday_key a \<notin> seen" by auto
  from Cons.prems have "distinct (map holiday_key xs)"
    and "holiday_key ` set xs \<inter> insert (holiday_key a) seen = {}" by auto
  from Cons.IH [OF this] a show ?case by (simp add: Let_def)
qed

lemma key_split:
  assumes "d1 @ CHR ''|'' # n1 = d2 @ CHR ''|'' # n2"
    and "CHR ''|'' \<notin> set d1" "CHR ''|'' \<notin> set d2"
  shows "d1 = d2 \<and> n1 = n2"
proof -
  have t: "takeWhile (\<lambda>c. c \<noteq> CHR ''|'') (d @ CHR ''|'' # n) = d" if "CHR ''|'' \<notin> set d" for d n
    using that by (auto simp: takeWhile_tail)
  from assms(1) have "takeWhile (\<lambda>c. c \<noteq> CHR ''|'') (d1 @ CHR ''|'' # n1)
      = takeWhile (\<lambda>c. c \<noteq> CHR ''|'') (d2 @ CHR ''|'' # n2)" by simp
  with t [OF assms(2)] t [OF assms(3)] have "d1 = d2" by simp
  with assms(1) show ?thesis by simp
qed

lemma holiday_key_eq_iff:
  assumes "CHR ''|'' \<notin> set (text_of (raw_date a))" "CHR ''|'' \<notin> set (text_of (raw_date b))"
  shows "(holiday_key a = holiday_key b)
     = (text_of (raw_date a) = text_of (raw_date b)
        \<and> trim (text_of (localName a)) = trim (text_of (localName b)))"
  using key_split [OF _ assms] by (auto simp: holiday_key_def)

lemma holiday_key_parsed: "holiday_key r = date (parsed_holiday r) @ ''|'' @ name (parsed_holiday r)"
  by (simp add: holiday_key_def parsed_holiday_def)

lemma parsed_distinct: "distinct (map (\<lambda>h. (date h, name h)) (parsed utcOffset data))"
proof -
  let ?U = "uniqueHolidays {} (filter (keep_raw utcOffset) data)"
  let ?P = "map (\<lambda>h. (date h, name h)) (map parsed_holiday ?U)"
  have "map (\<lambda>p. fst p @ ''|'' @ snd p) ?P = map holiday_key ?U"
    by (simp add: holiday_key_def parsed_holiday_def)
  then have "distinct (map (\<lambda>p. fst p @ ''|'' @ snd p) ?P)"
    by (simp only: uniqueHolidays_distinct)
  then have "distinct ?P" by (rule distinct_map [THEN iffD1, THEN conjunct1])
  then show ?thesis by (simp only: parsed_def Let_def)
qed

lemma parsed_snoc:
  "parsed utcOffset (data @ [r])
     = parsed utcOffset data
       @ (if keep_raw utcOffset r
             \<and> holiday_key r \<notin> holiday_key ` set (filter (keep_raw utcOffset) data)
          then [parsed_holiday r] else [])"
  by (simp add: parsed_def uniqueHolidays_snoc)

lemma parsed_pairs:
  assumes "\<forall>x \<in> set (data @ [r]). CHR ''|'' \<notin> set (text_of (raw_date x))"
  shows "(holiday_key r \<in> holiday_key ` set (filter (keep_raw utcOffset) data))
     = ((date (parsed_holiday r), name (parsed_holiday r))
          \<in> (\<lambda>h. (date h, name h)) ` set (parsed utcOffset data))"
proof -
  let ?F = "filter (keep_raw utcOffset) data"
  let ?U = "uniqueHolidays {} ?F"
  have k: "holiday_key ` set ?U = holiday_key ` set ?F"
    by (simp add: uniqueHolidays_keys)
  have sub: "set ?U \<subseteq> set data"
    using uniqueHolidays_subset [of "{}" ?F] by auto
  have eq: "(holiday_key r = holiday_key x)
      = ((date (parsed_holiday r), name (parsed_holiday r))
           = (date (parsed_holiday x), name (parsed_holiday x)))" if "x \<in> set ?U" for x
  proof -
    from that sub assms have "CHR ''|'' \<notin> set (text_of (raw_date x))" by auto
    moreover from assms have "CHR ''|'' \<notin> set (text_of (raw_date r))" by simp
    ultimately show ?thesis
      by (simp add: holiday_key_eq_iff parsed_holiday_def)
  qed
  have "(holiday_key r \<in> holiday_key ` set ?F) = (\<exists>x \<in> set ?U. holiday_key r = holiday_key x)"
    unfolding k [symmetric] by auto
  also have "\<dots> = (\<exists>x \<in> set ?U. (date (parsed_holiday r), name (parsed_holiday r))
           = (date (parsed_holiday x), name (parsed_holiday x)))"
    using eq by blast
  also have "\<dots> = ((date (parsed_holiday r), name (parsed_holiday r))
          \<in> (\<lambda>h. (date h, name h)) ` set (parsed utcOffset data))"
    by (auto simp: parsed_def)
  finally show ?thesis .
qed

lemma keep_raw_fields:
  assumes "keep_raw utcOffset r"
  shows "\<exists>s n. raw_date r = Str s \<and> s \<noteq> [] \<and> localName r = Str n \<and> \<not> isWeekend utcOffset s"
proof -
  from assms have t: "truthy (raw_date r)" and i: "is_string (localName r)"
    and w: "\<not> isWeekend utcOffset (text_of (raw_date r))"
    by (simp_all add: keep_raw_def split: if_splits)
  from t obtain s where s: "raw_date r = Str s" "s \<noteq> []" by (cases "raw_date r") simp_all
  from i obtain n where n: "localName r = Str n" by (cases "localName r") simp_all
  from s n w show ?thesis by simp
qed

lemma raw_of_parsed:
  assumes "keep_raw utcOffset r"
  shows "keep_raw utcOffset (raw_of (parsed_holiday r))"
    and "holiday_key (raw_of (parsed_holiday r)) = holiday_key r"
    and "parsed_holiday (raw_of (parsed_holiday r)) = parsed_holiday r"
proof -
  from keep_raw_fields [OF assms] obtain s n
    where f: "raw_date r = Str s" "s \<noteq> []" "localName r = Str n" "\<not> isWeekend utcOffset s"
    by blast
  then show "keep_raw utcOffset (raw_of (parsed_holiday r))"
    by (simp add: keep_raw_def raw_of_def parsed_holiday_def)
  from f show "holiday_key (raw_of (parsed_holiday r)) = holiday_key r"
    by (simp add: holiday_key_def raw_of_def parsed_holiday_def trim_idem)
  from f show "parsed_holiday (raw_of (parsed_holiday r)) = parsed_holiday r"
    by (simp add: raw_of_def parsed_holiday_def trim_idem)
qed

lemma parsed_idem: "parsed utcOffset (map raw_of (parsed utcOffset data)) = parsed utcOffset data"
proof -
  let ?U = "uniqueHolidays {} (filter (keep_raw utcOffset) data)"
  let ?N = "map (\<lambda>r. raw_of (parsed_holiday r)) ?U"
  have kept: "keep_raw utcOffset r" if "r \<in> set ?U" for r
    using that uniqueHolidays_subset [of "{}" "filter (keep_raw utcOffset) data"] by auto
  have n: "map raw_of (parsed utcOffset data) = ?N" by (simp add: parsed_def)
  have "\<forall>x \<in> set ?N. keep_raw utcOffset x"
  proof
    fix x assume "x \<in> set ?N"
    then obtain r where "r \<in> set ?U" "x = raw_of (parsed_holiday r)" by auto
    with kept raw_of_parsed(1) show "keep_raw utcOffset x" by blast
  qed
  then have f: "filter (keep_raw utcOffset) ?N = ?N" by (simp only: filter_id_conv)
  have "map holiday_key ?N = map (\<lambda>r. holiday_key (raw_of (parsed_holiday r))) ?U"
    by (simp add: o_def)
  also have "\<dots> = map holiday_key ?U"
    by (rule map_cong [OF refl]) (rule raw_of_parsed(2) [OF kept])
  finally have keys: "map holiday_key ?N = map holiday_key ?U" .
  have "distinct (map holiday_key ?N)"
    unfolding keys by (rule uniqueHolidays_distinct)
  then have u: "uniqueHolidays {} ?N = ?N" by (rule uniqueHolidays_fixed) simp
  have "map parsed_holiday ?N = map (\<lambda>r. parsed_holiday (raw_of (parsed_holiday r))) ?U"
    by (simp add: o_def)
  also have "\<dots> = map parsed_holiday ?U"
    by (rule map_cong [OF refl]) (rule raw_of_parsed(3) [OF kept])
  finally have p: "map parsed_holiday ?N = map parsed_holiday ?U" .
  have "parsed utcOffset ?N = map parsed_holiday (uniqueHolidays {} (filter (keep_raw utcOffset) ?N))"
    by (simp only: parsed_def Let_def)
  also have "\<dots> = map parsed_holiday ?U" by (simp only: f u p)
  also have "\<dots> = parsed utcOffset data" by (simp only: parsed_def Let_def)
  finally show ?thesis by (simp only: n)
qed

lemma parsedHolidays_length: "parsedHolidays vevents = Some hs \<Longrightarrow> length hs = length vevents"
  by (induction vevents arbitrary: hs) (auto split: option.splits)

lemma local_day_east:
  assumes "0 \<le> utcOffset" "utcOffset < 1440"
  shows "(d * 1440 + utcOffset) div 1440 = (d::int)"
proof -
  have "(utcOffset + d * 1440) div 1440 = d + utcOffset div 1440"
    by (rule div_mult_self1) simp
  moreover have "utcOffset div 1440 = 0" using assms by simp
  ultimately show ?thesis by (simp add: add.commute)
qed

lemma weekend_dropped_east_of_utc:
  assumes off: "0 \<le> utcOffset" "utcOffset < 1440"
    and h: "h \<in> set (parsed utcOffset data)" and d: "Date_parse (date h) = Some d"
  shows "getDay d \<noteq> 0 \<and> getDay d \<noteq> 6"
proof -
  from h obtain r where r: "r \<in> set (uniqueHolidays {} (filter (keep_raw utcOffset) data))"
    and hr: "h = parsed_holiday r" by (auto simp: parsed_def)
  from r uniqueHolidays_subset [of "{}" "filter (keep_raw utcOffset) data"]
  have "keep_raw utcOffset r" by auto
  from keep_raw_fields [OF this] obtain s n
    where f: "raw_date r = Str s" "\<not> isWeekend utcOffset s" by blast
  from hr f(1) have "date h = s" by (simp add: parsed_holiday_def)
  with d f(2) show ?thesis
    by (simp add: isWeekend_def local_day_east [OF off] Let_def)
qed

lemma twin_parsed:
  "parsedHolidays twin_events
     = Some [\<lparr>date = ''2025-06-10'', name = ''National Day'', type = Regular\<rparr>,
             \<lparr>date = ''2025-06-10'', name = ''National Day'', type = Regular\<rparr>]"
  by (simp add: twin_events_def june_week_format)

subsection \<open>Facts about the week counts\<close>









section \<open>The claims\<close>

text \<open>
  Claim C5, as the code has it. Take an anchor date and a time zone such that every day
  from the Sunday on or before the first day of the anchor's month to the Saturday on or
  after its last day exists in the zone and lies inside the range of \<open>Date\<close>. Then
  \<open>getMonthDays\<close> returns exactly these days, consecutive and in increasing order: the
  list starts on that Sunday, ends on that Saturday, contains every date of the anchor's
  month, and its length is 28, 35 or 42, a multiple of 7.
\<close>

theorem getMonthDays_tz_grid:
  "(\<forall>d. startOfWeek (startOfMonth a) 0 \<le> d \<and> d \<le> endOfWeek (endOfMonth a) 0
         \<longrightarrow> d \<notin> set (skipped z) \<and> in_Date_range d) \<longrightarrow>
   getMonthDays_tz z a = [startOfWeek (startOfMonth a) 0..endOfWeek (endOfMonth a) 0]
   \<and> getDate (startOfMonth a) = 1
   \<and> getMonth (startOfMonth a) = getMonth a \<and> getFullYear (startOfMonth a) = getFullYear a
   \<and> getMonth (endOfMonth a) = getMonth a \<and> getFullYear (endOfMonth a) = getFullYear a
   \<and> getMonth (endOfMonth a + 1) \<noteq> getMonth a
   \<and> getDay (hd (getMonthDays_tz z a)) = 0
   \<and> hd (getMonthDays_tz z a) \<le> startOfMonth a \<and> startOfMonth a - hd (getMonthDays_tz z a) < 7
   \<and> getDay (last (getMonthDays_tz z a)) = 6
   \<and> endOfMonth a \<le> last (getMonthDays_tz z a) \<and> last (getMonthDays_tz z a) - endOfMonth a < 7
   \<and> (\<forall>x. getFullYear x = getFullYear a \<and> getMonth x = getMonth a
          \<longrightarrow> x \<in> set (getMonthDays_tz z a))
   \<and> (length (getMonthDays_tz z a) = 28 \<or> length (getMonthDays_tz z a) = 35
        \<or> length (getMonthDays_tz z a) = 42)
   \<and> length (getMonthDays_tz z a) mod 7 = 0"
proof
  assume "\<forall>d. startOfWeek (startOfMonth a) 0 \<le> d \<and> d \<le> endOfWeek (endOfMonth a) 0
         \<longrightarrow> d \<notin> set (skipped z) \<and> in_Date_range d"
  then have eq: "getMonthDays_tz z a = getMonthDays a" by (rule getMonthDays_tz_regular)
  show "getMonthDays_tz z a = [startOfWeek (startOfMonth a) 0..endOfWeek (endOfMonth a) 0]
   \<and> getDate (startOfMonth a) = 1
   \<and> getMonth (startOfMonth a) = getMonth a \<and> getFullYear (startOfMonth a) = getFullYear a
   \<and> getMonth (endOfMonth a) = getMonth a \<and> getFullYear (endOfMonth a) = getFullYear a
   \<and> getMonth (endOfMonth a + 1) \<noteq> getMonth a
   \<and> getDay (hd (getMonthDays_tz z a)) = 0
   \<and> hd (getMonthDays_tz z a) \<le> startOfMonth a \<and> startOfMonth a - hd (getMonthDays_tz z a) < 7
   \<and> getDay (last (getMonthDays_tz z a)) = 6
   \<and> endOfMonth a \<le> last (getMonthDays_tz z a) \<and> last (getMonthDays_tz z a) - endOfMonth a < 7
   \<and> (\<forall>x. getFullYear x = getFullYear a \<and> getMonth x = getMonth a
          \<longrightarrow> x \<in> set (getMonthDays_tz z a))
   \<and> (length (getMonthDays_tz z a) = 28 \<or> length (getMonthDays_tz z a) = 35
        \<or> length (getMonthDays_tz z a) = 42)
   \<and> length (getMonthDays_tz z a) mod 7 = 0"
    unfolding eq
  proof (intro conjI)
    show "getMonthDays a = [startOfWeek (startOfMonth a) 0..endOfWeek (endOfMonth a) 0]"
      by (rule getMonthDays_upto)
    show "getDate (startOfMonth a) = 1" "getMonth (startOfMonth a) = getMonth a"
      "getFullYear (startOfMonth a) = getFullYear a"
      by (rule startOfMonth_fields)+
    show "getMonth (endOfMonth a) = getMonth a" "getFullYear (endOfMonth a) = getFullYear a"
      by (rule endOfMonth_fields)+
    show "getMonth (endOfMonth a + 1) \<noteq> getMonth a" by (rule after_endOfMonth)
    show "getDay (hd (getMonthDays a)) = 0" "hd (getMonthDays a) \<le> startOfMonth a"
      "startOfMonth a - hd (getMonthDays a) < 7"
      unfolding getMonthDays_hd_last by (rule grid_start)+
    show "getDay (last (getMonthDays a)) = 6" "endOfMonth a \<le> last (getMonthDays a)"
      "last (getMonthDays a) - endOfMonth a < 7"
      unfolding getMonthDays_hd_last by (rule grid_end)+
    show "\<forall>x. getFullYear x = getFullYear a \<and> getMonth x = getMonth a \<longrightarrow> x \<in> set (getMonthDays a)"
      using getMonthDays_month by blast
    show len: "length (getMonthDays a) = 28 \<or> length (getMonthDays a) = 35
        \<or> length (getMonthDays a) = 42"
      by (rule getMonthDays_length)
    then show "length (getMonthDays a) mod 7 = 0" by auto
  qed
qed

theorem getMonthDays_tz_grid_witness:
  "startOfWeek (startOfMonth 20249) 0 = 20240 \<and> endOfWeek (endOfMonth 20249) 0 = 20274
   \<and> skipped apia = [15338]
   \<and> in_Date_range 20240 \<and> in_Date_range 20274
   \<and> getMonthDays_tz apia 20249 = [20240..20274]
   \<and> length (getMonthDays_tz apia 20249) = 35
   \<and> getFullYear 20255 = getFullYear 20249 \<and> getMonth 20255 = getMonth 20249
   \<and> 20255 \<in> set (getMonthDays_tz apia 20249)"
proof -
  have s: "startOfWeek (startOfMonth 20249) 0 = 20240" by code_simp
  have e: "endOfWeek (endOfMonth 20249) 0 = 20274" by code_simp
  have h: "getFullYear 20255 = getFullYear 20249 \<and> getMonth 20255 = getMonth 20249"
    by code_simp
  have r: "\<forall>d. startOfWeek (startOfMonth 20249) 0 \<le> d \<and> d \<le> endOfWeek (endOfMonth 20249) 0
         \<longrightarrow> d \<notin> set (skipped apia) \<and> in_Date_range d"
    unfolding s e by (simp add: apia_def in_Date_range_def)
  from getMonthDays_tz_grid [of 20249 apia] r
  have g: "getMonthDays_tz apia 20249
      = [startOfWeek (startOfMonth 20249) 0..endOfWeek (endOfMonth 20249) 0]"
    and m: "\<forall>x. getFullYear x = getFullYear 20249 \<and> getMonth x = getMonth 20249
          \<longrightarrow> x \<in> set (getMonthDays_tz apia 20249)"
    by blast+
  from m h have x: "20255 \<in> set (getMonthDays_tz apia 20249)" by blast
  from g have g': "getMonthDays_tz apia 20249 = [20240..20274]" by (simp only: s e)
  have "length (getMonthDays_tz apia 20249) = 35" unfolding g' by simp
  with s e h x g' show ?thesis by (simp add: apia_def in_Date_range_def)
qed

text \<open>
  The claim fails in three ways. The grid of June 2025 has 35 dates, not 42. In
  Pacific/Apia the grid of December 2011 has 34 dates, without 30 December, a day the zone
  skipped. For the anchor 11 September 275760, a valid date, the last day of the month is
  beyond the range of \<open>Date\<close> and the grid is empty.
\<close>

theorem getMonthDays_tz_not_42:
  "format_yyyy_MM_dd 20249 = ''2025-06-10''
   \<and> getMonthDays_tz regular_zone 20249 = [20240..20274]
   \<and> length (getMonthDays_tz regular_zone 20249) = 35
   \<and> length (getMonthDays_tz regular_zone 20249) \<noteq> 42
   \<and> format_yyyy_MM_dd 15323 = ''2011-12-15'' \<and> format_yyyy_MM_dd 15338 = ''2011-12-30''
   \<and> length (getMonthDays_tz apia 15323) = 34
   \<and> 15338 \<notin> set (getMonthDays_tz apia 15323)
   \<and> getFullYear 99999998 = 275760 \<and> getMonth 99999998 = 8 \<and> getDate 99999998 = 11
   \<and> in_Date_range 99999998
   \<and> getMonthDays_tz regular_zone 99999998 = []"
proof -
  have a: "format_yyyy_MM_dd 20249 = ''2025-06-10''" by code_simp
  have b: "getMonthDays_tz regular_zone 20249 = [20240..20274]" by code_simp
  have c: "length (getMonthDays_tz regular_zone 20249) = 35" unfolding b by simp
  have d: "format_yyyy_MM_dd 15323 = ''2011-12-15''" by code_simp
  have e: "format_yyyy_MM_dd 15338 = ''2011-12-30''" by code_simp
  have f: "getMonthDays_tz apia 15323 = [15305..15337] @ [15339]" by code_simp
  have g: "length (getMonthDays_tz apia 15323) = 34" unfolding f by simp
  have h: "15338 \<notin> set (getMonthDays_tz apia 15323)" unfolding f by simp
  have i: "getFullYear 99999998 = 275760" by code_simp
  have j: "getMonth 99999998 = 8" by code_simp
  have k: "getDate 99999998 = 11" by code_simp
  have l: "in_Date_range 99999998" by (simp add: in_Date_range_def)
  have m: "getMonthDays_tz regular_zone 99999998 = []" by code_simp
  show ?thesis
    apply (intro conjI)
    apply (rule a) apply (rule b) apply (rule c) apply (simp only: c)
    apply (rule d) apply (rule e) apply (rule g) apply (rule h)
    apply (rule i) apply (rule j) apply (rule k) apply (rule l) apply (rule m)
    done
qed

text \<open>
  Claim C6, as the code has it. \<open>getWeeks\<close> returns \<open>\<lceil>n / 7\<rceil>\<close> chunks for a list of \<open>n\<close>
  days; chunk \<open>i\<close> holds the days \<open>7i, \<dots>, 7i + 6\<close> of the input that exist, in their
  order. When \<open>n\<close> is a multiple of 7 every chunk has seven days. When it is not,
  \<open>getWeeks\<close> still returns: the last chunk holds the remaining \<open>n mod 7\<close> days.
\<close>

theorem getWeeks_chunks:
  "length (getWeeks days) = (length days + 6) div 7
   \<and> (\<forall>i < length (getWeeks days). getWeeks days ! i = take 7 (drop (7 * i) days))
   \<and> (length days mod 7 = 0 \<longrightarrow> (\<forall>w \<in> set (getWeeks days). length w = 7))
   \<and> (length days mod 7 \<noteq> 0 \<longrightarrow>
        getWeeks days \<noteq> [] \<and> last (getWeeks days) = drop (7 * (length days div 7)) days
        \<and> length (last (getWeeks days)) = length days mod 7)"
  unfolding getWeeks_chunks7
proof (intro conjI allI impI ballI)
  show "length (chunks7 days) = (length days + 6) div 7" by (rule chunks7_length)
  show "chunks7 days ! i = take 7 (drop (7 * i) days)" if "i < length (chunks7 days)" for i
    using that by (rule chunks7_nth)
  show "length w = 7" if "length days mod 7 = 0" "w \<in> set (chunks7 days)" for w
    using that by (rule chunks7_all_full)
  show "chunks7 days \<noteq> []" if "length days mod 7 \<noteq> 0"
    using chunks7_last [OF that] by simp
  show "last (chunks7 days) = drop (7 * (length days div 7)) days" if "length days mod 7 \<noteq> 0"
    using that by (rule chunks7_last_drop)
  show "length (last (chunks7 days)) = length days mod 7" if "length days mod 7 \<noteq> 0"
    using chunks7_last [OF that] by simp
qed

theorem getWeeks_chunks_witness:
  "length [1, 2, 3, 4, 5, 6, 7, 8 :: nat] mod 7 \<noteq> 0
   \<and> last (getWeeks [1, 2, 3, 4, 5, 6, 7, 8 :: nat]) = [8]
   \<and> length [1, 2, 3, 4, 5, 6, 7 :: nat] mod 7 = 0
   \<and> hd (getWeeks [1, 2, 3, 4, 5, 6, 7 :: nat]) \<in> set (getWeeks [1, 2, 3, 4, 5, 6, 7 :: nat])
   \<and> length (hd (getWeeks [1, 2, 3, 4, 5, 6, 7 :: nat])) = 7"
proof -
  have m8: "length [1, 2, 3, 4, 5, 6, 7, 8 :: nat] mod 7 \<noteq> 0" by simp
  have m7: "length [1, 2, 3, 4, 5, 6, 7 :: nat] mod 7 = 0" by simp
  from getWeeks_chunks [of "[1, 2, 3, 4, 5, 6, 7, 8 :: nat]"] m8
  have "last (getWeeks [1, 2, 3, 4, 5, 6, 7, 8 :: nat])
      = drop (7 * (length [1, 2, 3, 4, 5, 6, 7, 8 :: nat] div 7)) [1, 2, 3, 4, 5, 6, 7, 8]"
    by blast
  then have a: "last (getWeeks [1, 2, 3, 4, 5, 6, 7, 8 :: nat]) = [8]" by simp
  have h: "hd (getWeeks [1, 2, 3, 4, 5, 6, 7 :: nat]) \<in> set (getWeeks [1, 2, 3, 4, 5, 6, 7 :: nat])"
    by (simp add: getWeeks_def getWeeks_step_def)
  from getWeeks_chunks [of "[1, 2, 3, 4, 5, 6, 7 :: nat]"] m7 h
  have b: "length (hd (getWeeks [1, 2, 3, 4, 5, 6, 7 :: nat])) = 7" by blast
  from m8 a m7 h b show ?thesis by blast
qed

text \<open>
  The claim's failure on a length that is not a multiple of 7 does not happen: eight days
  give a full week and a week of one day.
\<close>

theorem getWeeks_returns_on_partial_week:
  "length [1, 2, 3, 4, 5, 6, 7, 8 :: nat] mod 7 \<noteq> 0
   \<and> getWeeks [1, 2, 3, 4, 5, 6, 7, 8 :: nat] = [[1, 2, 3, 4, 5, 6, 7], [8]]"
  by (simp add: getWeeks_def getWeeks_step_def)

text \<open>
  Claim C10. \<open>getWeeks\<close> is a total function on lists, and the concatenation of its chunks
  is the input: no day is dropped, duplicated or moved. Every chunk but the last has seven
  days, no chunk is empty or longer than seven, and an input whose length is not a
  multiple of 7 ends in a shorter chunk of \<open>n mod 7\<close> days.
\<close>

theorem getWeeks_lossless:
  "concat (getWeeks days) = days
   \<and> (\<forall>w \<in> set (butlast (getWeeks days)). length w = 7)
   \<and> (\<forall>w \<in> set (getWeeks days). 0 < length w \<and> length w \<le> 7)
   \<and> (length days mod 7 \<noteq> 0 \<longrightarrow>
        getWeeks days \<noteq> [] \<and> length (last (getWeeks days)) = length days mod 7
        \<and> length (last (getWeeks days)) < 7)"
  unfolding getWeeks_chunks7
  using concat_chunks7 [of days] chunks7_butlast [of _ days] chunks7_sizes [of _ days]
    chunks7_last [of days]
  by simp

theorem getWeeks_lossless_witness:
  "length [1, 2, 3, 4, 5, 6, 7, 8, 9 :: nat] mod 7 \<noteq> 0
   \<and> getWeeks [1, 2, 3, 4, 5, 6, 7, 8, 9 :: nat] = [[1, 2, 3, 4, 5, 6, 7], [8, 9]]
   \<and> length (last (getWeeks [1, 2, 3, 4, 5, 6, 7, 8, 9 :: nat])) = 2"
proof -
  have g: "getWeeks [1, 2, 3, 4, 5, 6, 7, 8, 9 :: nat] = [[1, 2, 3, 4, 5, 6, 7], [8, 9]]"
    by (simp add: getWeeks_def getWeeks_step_def)
  have m: "length [1, 2, 3, 4, 5, 6, 7, 8, 9 :: nat] mod 7 \<noteq> 0" by simp
  from getWeeks_lossless [of "[1, 2, 3, 4, 5, 6, 7, 8, 9 :: nat]"] m
  have "length (last (getWeeks [1, 2, 3, 4, 5, 6, 7, 8, 9 :: nat]))
      = length [1, 2, 3, 4, 5, 6, 7, 8, 9 :: nat] mod 7" by blast
  then have "length (last (getWeeks [1, 2, 3, 4, 5, 6, 7, 8, 9 :: nat])) = 2" by simp
  with g m show ?thesis by blast
qed

text \<open>
  Claim C1. For every week of a month rendered by the remote component, the class of the
  row is decided in this order, the first match winning: two or more regular holiday days
  give the dark override, and then no cell of the week has a background colour (today's
  cell and cells with work holidays included); otherwise more than one work holiday day
  gives the filled highlight; otherwise exactly one work holiday day gives the green
  outline; otherwise exactly one regular holiday day gives the grey outline; otherwise the
  row has no highlight. The witness is a week with two regular and three work holiday
  days: it is dark, not green.
\<close>

theorem week_highlight_priority:
  "(2 \<le> snd (weekCounts st monthDate week) \<longrightarrow>
      rowClass (renderWeek st today monthDate week)
        = ''grid grid-cols-7 gap-1 mb-1 rounded bg-gray-600 text-white''
      \<and> (\<forall>c \<in> set (cells (renderWeek st today monthDate week)).
            c = EmptyCell \<or> (\<exists>d. c = DayCell d \<and> bgColor d = [])))
   \<and> (snd (weekCounts st monthDate week) < 2 \<and> 1 < fst (weekCounts st monthDate week) \<longrightarrow>
      rowClass (renderWeek st today monthDate week)
        = ''grid grid-cols-7 gap-1 mb-1 rounded bg-green-200'')
   \<and> (snd (weekCounts st monthDate week) < 2 \<and> fst (weekCounts st monthDate week) = 1 \<longrightarrow>
      rowClass (renderWeek st today monthDate week)
        = ''grid grid-cols-7 gap-1 mb-1 rounded border-2 border-green-400'')
   \<and> (snd (weekCounts st monthDate week) = 1 \<and> fst (weekCounts st monthDate week) = 0 \<longrightarrow>
      rowClass (renderWeek st today monthDate week)
        = ''grid grid-cols-7 gap-1 mb-1 rounded border-2 border-gray-300'')
   \<and> (snd (weekCounts st monthDate week) = 0 \<and> fst (weekCounts st monthDate week) = 0 \<longrightarrow>
      rowClass (renderWeek st today monthDate week) = ''grid grid-cols-7 gap-1 mb-1 rounded'')"
proof (intro conjI impI)
  assume h: "2 \<le> snd (weekCounts st monthDate week)"
  then show "rowClass (renderWeek st today monthDate week)
        = ''grid grid-cols-7 gap-1 mb-1 rounded bg-gray-600 text-white''"
    by (simp add: renderWeek_def weekClass_def trim_weekClass)
  from h have "cells (renderWeek st today monthDate week)
      = map (renderDay st today monthDate True) week"
    by (simp add: renderWeek_def)
  then show "\<forall>c \<in> set (cells (renderWeek st today monthDate week)).
      c = EmptyCell \<or> (\<exists>d. c = DayCell d \<and> bgColor d = [])"
    using renderDay_override [of st today monthDate] by auto
next
  assume "snd (weekCounts st monthDate week) < 2 \<and> 1 < fst (weekCounts st monthDate week)"
  then show "rowClass (renderWeek st today monthDate week)
        = ''grid grid-cols-7 gap-1 mb-1 rounded bg-green-200''"
    by (simp add: renderWeek_def weekClass_def trim_weekClass)
next
  assume "snd (weekCounts st monthDate week) < 2 \<and> fst (weekCounts st monthDate week) = 1"
  then show "rowClass (renderWeek st today monthDate week)
        = ''grid grid-cols-7 gap-1 mb-1 rounded border-2 border-green-400''"
    by (simp add: renderWeek_def weekClass_def trim_weekClass)
next
  assume "snd (weekCounts st monthDate week) = 1 \<and> fst (weekCounts st monthDate week) = 0"
  then show "rowClass (renderWeek st today monthDate week)
        = ''grid grid-cols-7 gap-1 mb-1 rounded border-2 border-gray-300''"
    by (simp add: renderWeek_def weekClass_def trim_weekClass)
next
  assume "snd (weekCounts st monthDate week) = 0 \<and> fst (weekCounts st monthDate week) = 0"
  then show "rowClass (renderWeek st today monthDate week) = ''grid grid-cols-7 gap-1 mb-1 rounded''"
    by (simp add: renderWeek_def weekClass_def trim_weekClass)
qed

theorem week_highlight_priority_witness:
  "weekCounts busy_state 20249 june_week = (3, 2)
   \<and> rowClass (renderWeek busy_state 20249 20249 june_week)
       = ''grid grid-cols-7 gap-1 mb-1 rounded bg-gray-600 text-white''
   \<and> renderDay busy_state 20249 20249 True 20249 \<in> set (cells (renderWeek busy_state 20249 20249 june_week))
   \<and> (\<exists>d. renderDay busy_state 20249 20249 True 20249 = DayCell d \<and> bgColor d = [])"
proof -
  have c: "weekCounts busy_state 20249 june_week = (3, 2)" by (rule busy_counts)
  then have h: "2 \<le> snd (weekCounts busy_state 20249 june_week)" by simp
  have m: "renderDay busy_state 20249 20249 True 20249
      \<in> set (cells (renderWeek busy_state 20249 20249 june_week))"
    using c by (simp add: renderWeek_def june_week_def)
  have ne: "renderDay busy_state 20249 20249 True 20249 \<noteq> EmptyCell"
    by (simp add: renderDay_def busy_state_def Let_def)
  from week_highlight_priority [of busy_state 20249 june_week 20249] h m ne c
  show ?thesis by blast
qed

text \<open>
  Claim C8. Selecting the country code \<open>IN\<close> issues no request, clears the holiday set and
  shows the message that the data is not available. A request that fails (rejected, status
  not ok, body unusable) clears the holiday set and shows another message. A malformed
  calendar file, or one whose events cannot be read, leaves the state of the import
  component as it was and raises an alert.
\<close>

theorem failure_post_states:
  "(countryCode st = ''IN'' \<longrightarrow>
      fetchHolidays utcOffset service st
        = (st\<lparr>holidays := [],
               errorMessage := Some ''Holiday data for India is not available from Nager API.''\<rparr>,
           []))
   \<and> (countryCode st \<noteq> ''IN''
        \<and> service (getFullYear (baseDate st)) (countryCode st) \<in> {Rejected, NotOk, Unusable} \<longrightarrow>
      fetchHolidays utcOffset service st
        = (st\<lparr>holidays := [], errorMessage := Some ''Failed to load holiday data.''\<rparr>,
           [(getFullYear (baseDate st), countryCode st)]))
   \<and> ''Failed to load holiday data.'' \<noteq> ''Holiday data for India is not available from Nager API.''
   \<and> handleICSFile (Some Malformed) sti
        = (sti, [''Failed to parse ICS file. Please check console.''])
   \<and> (parsedHolidays vevents = None \<longrightarrow>
        handleICSFile (Some (Calendar vevents)) sti
          = (sti, [''Failed to parse ICS file. Please check console.'']))"
proof (intro conjI impI)
  assume "countryCode st = ''IN''"
  then show "fetchHolidays utcOffset service st
        = (st\<lparr>holidays := [],
               errorMessage := Some ''Holiday data for India is not available from Nager API.''\<rparr>,
           [])"
    by (simp add: fetchHolidays_def)
next
  assume h: "countryCode st \<noteq> ''IN''
        \<and> service (getFullYear (baseDate st)) (countryCode st) \<in> {Rejected, NotOk, Unusable}"
  then show "fetchHolidays utcOffset service st
        = (st\<lparr>holidays := [], errorMessage := Some ''Failed to load holiday data.''\<rparr>,
           [(getFullYear (baseDate st), countryCode st)])"
    by (auto simp: fetchHolidays_def Let_def)
next
  show "''Failed to load holiday data.'' \<noteq> ''Holiday data for India is not available from Nager API.''"
    by simp
next
  show "handleICSFile (Some Malformed) sti
        = (sti, [''Failed to parse ICS file. Please check console.''])"
    by (simp add: handleICSFile_def)
next
  assume "parsedHolidays vevents = None"
  then show "handleICSFile (Some (Calendar vevents)) sti
          = (sti, [''Failed to parse ICS file. Please check console.''])"
    by (simp add: handleICSFile_def)
qed

theorem failure_post_states_witness:
  "countryCode (busy_state\<lparr>countryCode := ''IN''\<rparr>) = ''IN''
   \<and> holidays (fst (fetchHolidays 0 (\<lambda>y c. Body []) (busy_state\<lparr>countryCode := ''IN''\<rparr>))) = []
   \<and> snd (fetchHolidays 0 (\<lambda>y c. Body []) (busy_state\<lparr>countryCode := ''IN''\<rparr>)) = []
   \<and> countryCode busy_state \<noteq> ''IN''
   \<and> (\<lambda>y c. NotOk) (getFullYear (baseDate busy_state)) (countryCode busy_state)
        \<in> {Rejected, NotOk, Unusable}
   \<and> holidays (fst (fetchHolidays 0 (\<lambda>y c. NotOk) busy_state)) = []
   \<and> errorMessage (fst (fetchHolidays 0 (\<lambda>y c. NotOk) busy_state))
        = Some ''Failed to load holiday data.''
   \<and> parsedHolidays [\<lparr>startDate = None, summary = Some ''No start''\<rparr>] = None
   \<and> holidays_ics (fst (handleICSFile (Some (Calendar [\<lparr>startDate = None, summary = Some ''No start''\<rparr>]))
        \<lparr>baseDate_ics = 20249, holidays_ics = initial_holidays_ics, showOnlyHolidays_ics = True\<rparr>))
       = initial_holidays_ics"
proof -
  have a: "countryCode (busy_state\<lparr>countryCode := ''IN''\<rparr>) = ''IN''" by simp
  have b: "countryCode busy_state \<noteq> ''IN''" by (simp add: busy_state_def)
  have c: "(\<lambda>y c. NotOk) (getFullYear (baseDate busy_state)) (countryCode busy_state)
        \<in> {Rejected, NotOk, Unusable}" by simp
  have d: "parsedHolidays [\<lparr>startDate = None, summary = Some ''No start''\<rparr>] = None" by simp
  note t1 = failure_post_states [where st = "busy_state\<lparr>countryCode := ''IN''\<rparr>"
      and utcOffset = 0 and service = "\<lambda>y c. Body []"]
  note t2 = failure_post_states [where st = busy_state and service = "\<lambda>y c. NotOk"
      and utcOffset = 0 and vevents = "[\<lparr>startDate = None, summary = Some ''No start''\<rparr>]"
      and sti = "\<lparr>baseDate_ics = 20249, holidays_ics = initial_holidays_ics,
        showOnlyHolidays_ics = True\<rparr>"]
  from t1 a have e: "fetchHolidays 0 (\<lambda>y c. Body []) (busy_state\<lparr>countryCode := ''IN''\<rparr>)
      = (busy_state\<lparr>countryCode := ''IN'', holidays := [],
           errorMessage := Some ''Holiday data for India is not available from Nager API.''\<rparr>, [])"
    by blast
  from t2 b c have f: "fetchHolidays 0 (\<lambda>y c. NotOk) busy_state
      = (busy_state\<lparr>holidays := [], errorMessage := Some ''Failed to load holiday data.''\<rparr>,
         [(getFullYear (baseDate busy_state), countryCode busy_state)])"
    by blast
  from t2 d have g: "handleICSFile (Some (Calendar [\<lparr>startDate = None, summary = Some ''No start''\<rparr>]))
        \<lparr>baseDate_ics = 20249, holidays_ics = initial_holidays_ics, showOnlyHolidays_ics = True\<rparr>
      = (\<lparr>baseDate_ics = 20249, holidays_ics = initial_holidays_ics, showOnlyHolidays_ics = True\<rparr>,
         [''Failed to parse ICS file. Please check console.''])"
    by blast
  show ?thesis using a b c d by (simp add: e f g)
qed

text \<open>
  Claim C9. Two states of the remote component that differ in the flag \<open>showOnlyHolidays\<close>
  only give the same work and regular counts for every week and every rendered month, and
  so the same row classes, for a single week and for the whole month.
\<close>

theorem filter_flag_independent:
  "weekCounts (st\<lparr>showOnlyHolidays := a\<rparr>) monthDate week
     = weekCounts (st\<lparr>showOnlyHolidays := b\<rparr>) monthDate week
   \<and> rowClass (renderWeek (st\<lparr>showOnlyHolidays := a\<rparr>) today monthDate week)
     = rowClass (renderWeek (st\<lparr>showOnlyHolidays := b\<rparr>) today monthDate week)
   \<and> map rowClass (renderMonth (st\<lparr>showOnlyHolidays := a\<rparr>) today monthDate)
     = map rowClass (renderMonth (st\<lparr>showOnlyHolidays := b\<rparr>) today monthDate)"
proof -
  have c: "weekCounts (st\<lparr>showOnlyHolidays := x\<rparr>) monthDate w = weekCounts st monthDate w"
    for x w
    by (simp add: weekCounts_def)
  have r: "rowClass (renderWeek (st\<lparr>showOnlyHolidays := x\<rparr>) today monthDate w)
      = rowClass (renderWeek st today monthDate w)" for x w
    by (simp add: renderWeek_def c Let_def)
  show ?thesis by (simp add: c r renderMonth_def Let_def)
qed




text \<open>
  Claim C3, as the code has it. Take a week whose regular count is below two, so that it
  is not in override mode, and the cell the week's row shows at a position of the week.
  The holidays shown for the day are those of its date, in the remote component only when
  the day lies in the rendered month. The cell is the empty cell exactly when the filter is
  on and no holiday is shown for the day, also when the day is today. Otherwise it is a day
  cell: with today's background when the day is today; otherwise the work colour when the
  holidays shown include a work holiday; otherwise the regular colour when they include a
  regular holiday; otherwise none. Its badge, present when holidays are shown, holds one
  icon in the remote component, the work icon when the day has a work holiday and the
  regular icon otherwise. The import component has no override mode; there the badge holds
  one icon for each holiday of the day.
\<close>

theorem day_cell_colours:
  "(snd (weekCounts st monthDate week) < 2 \<and> i < length week \<and> day = week ! i \<longrightarrow>
      (cells (renderWeek st today monthDate week) ! i = EmptyCell)
        = (showOnlyHolidays st
           \<and> (if getMonth monthDate = getMonth day
               then filter (\<lambda>h. date h = format_yyyy_MM_dd day) (holidays st) else []) = [])
      \<and> (\<not> (showOnlyHolidays st
              \<and> (if getMonth monthDate = getMonth day
                  then filter (\<lambda>h. date h = format_yyyy_MM_dd day) (holidays st) else []) = [])
          \<longrightarrow> (\<exists>c. cells (renderWeek st today monthDate week) ! i = DayCell c
                 \<and> bgColor c =
                     (if day = today then ''bg-blue-300''
                      else if list_ex (\<lambda>h. type h = Work)
                               (if getMonth monthDate = getMonth day
                                then filter (\<lambda>h. date h = format_yyyy_MM_dd day) (holidays st)
                                else [])
                      then ''bg-green-300''
                      else if list_ex (\<lambda>h. type h = Regular)
                               (if getMonth monthDate = getMonth day
                                then filter (\<lambda>h. date h = format_yyyy_MM_dd day) (holidays st)
                                else [])
                      then ''bg-yellow-200''
                      else [])
                 \<and> badge c =
                     (if (if getMonth monthDate = getMonth day
                          then filter (\<lambda>h. date h = format_yyyy_MM_dd day) (holidays st)
                          else []) = []
                      then None
                      else Some (''text-gray-700'',
                                 if list_ex (\<lambda>h. type h = Work)
                                      (filter (\<lambda>h. date h = format_yyyy_MM_dd day) (holidays st))
                                 then [OfficeIcon] else [PartyIcon])))))
   \<and> (i < length week \<and> day = week ! i \<longrightarrow>
      (cells (renderWeek_ics sti today monthDate week) ! i = EmptyCell)
        = (showOnlyHolidays_ics sti
           \<and> filter (\<lambda>h. date h = format_yyyy_MM_dd day) (holidays_ics sti) = [])
      \<and> (\<not> (showOnlyHolidays_ics sti
              \<and> filter (\<lambda>h. date h = format_yyyy_MM_dd day) (holidays_ics sti) = [])
          \<longrightarrow> (\<exists>c. cells (renderWeek_ics sti today monthDate week) ! i = DayCell c
                 \<and> bgColor c =
                     (if day = today then ''bg-blue-300''
                      else if list_ex (\<lambda>h. type h = Work)
                               (filter (\<lambda>h. date h = format_yyyy_MM_dd day) (holidays_ics sti))
                      then ''bg-green-300''
                      else if list_ex (\<lambda>h. type h = Regular)
                               (filter (\<lambda>h. date h = format_yyyy_MM_dd day) (holidays_ics sti))
                      then ''bg-yellow-200''
                      else [])
                 \<and> badge c =
                     (if filter (\<lambda>h. date h = format_yyyy_MM_dd day) (holidays_ics sti) = []
                      then None
                      else Some (''text-gray-700'',
                                 map (\<lambda>h. if type h = Work then OfficeIcon else PartyIcon)
                                   (filter (\<lambda>h. date h = format_yyyy_MM_dd day)
                                      (holidays_ics sti)))))))"
proof (intro conjI impI)
  assume h: "snd (weekCounts st monthDate week) < 2 \<and> i < length week \<and> day = week ! i"
  then have cell: "cells (renderWeek st today monthDate week) ! i
      = renderDay st today monthDate False day"
    by (simp add: renderWeek_cells)
  show "(cells (renderWeek st today monthDate week) ! i = EmptyCell)
        = (showOnlyHolidays st
           \<and> (if getMonth monthDate = getMonth day
               then filter (\<lambda>h. date h = format_yyyy_MM_dd day) (holidays st) else []) = [])"
    unfolding cell by (subst renderDay_plain) simp
  assume "\<not> (showOnlyHolidays st
              \<and> (if getMonth monthDate = getMonth day
                  then filter (\<lambda>h. date h = format_yyyy_MM_dd day) (holidays st) else []) = [])"
  then show "\<exists>c. cells (renderWeek st today monthDate week) ! i = DayCell c
                 \<and> bgColor c =
                     (if day = today then ''bg-blue-300''
                      else if list_ex (\<lambda>h. type h = Work)
                               (if getMonth monthDate = getMonth day
                                then filter (\<lambda>h. date h = format_yyyy_MM_dd day) (holidays st)
                                else [])
                      then ''bg-green-300''
                      else if list_ex (\<lambda>h. type h = Regular)
                               (if getMonth monthDate = getMonth day
                                then filter (\<lambda>h. date h = format_yyyy_MM_dd day) (holidays st)
                                else [])
                      then ''bg-yellow-200''
                      else [])
                 \<and> badge c =
                     (if (if getMonth monthDate = getMonth day
                          then filter (\<lambda>h. date h = format_yyyy_MM_dd day) (holidays st)
                          else []) = []
                      then None
                      else Some (''text-gray-700'',
                                 if list_ex (\<lambda>h. type h = Work)
                                      (filter (\<lambda>h. date h = format_yyyy_MM_dd day) (holidays st))
                                 then [OfficeIcon] else [PartyIcon]))"
    unfolding cell by (subst renderDay_plain) simp
next
  assume h: "i < length week \<and> day = week ! i"
  then have cell: "cells (renderWeek_ics sti today monthDate week) ! i
      = renderDay_ics sti today monthDate day"
    by (simp add: renderWeek_ics_cells)
  show "(cells (renderWeek_ics sti today monthDate week) ! i = EmptyCell)
        = (showOnlyHolidays_ics sti
           \<and> filter (\<lambda>h. date h = format_yyyy_MM_dd day) (holidays_ics sti) = [])"
    unfolding cell by (subst renderDay_ics_plain) simp
  assume "\<not> (showOnlyHolidays_ics sti
              \<and> filter (\<lambda>h. date h = format_yyyy_MM_dd day) (holidays_ics sti) = [])"
  then show "\<exists>c. cells (renderWeek_ics sti today monthDate week) ! i = DayCell c
                 \<and> bgColor c =
                     (if day = today then ''bg-blue-300''
                      else if list_ex (\<lambda>h. type h = Work)
                               (filter (\<lambda>h. date h = format_yyyy_MM_dd day) (holidays_ics sti))
                      then ''bg-green-300''
                      else if list_ex (\<lambda>h. type h = Regular)
                               (filter (\<lambda>h. date h = format_yyyy_MM_dd day) (holidays_ics sti))
                      then ''bg-yellow-200''
                      else [])
                 \<and> badge c =
                     (if filter (\<lambda>h. date h = format_yyyy_MM_dd day) (holidays_ics sti) = []
                      then None
                      else Some (''text-gray-700'',
                                 map (\<lambda>h. if type h = Work then OfficeIcon else PartyIcon)
                                   (filter (\<lambda>h. date h = format_yyyy_MM_dd day)
                                      (holidays_ics sti))))"
    unfolding cell by (subst renderDay_ics_plain) simp
qed

theorem day_cell_colours_witness:
  "snd (weekCounts retreat_state 20249 june_week) = 1
   \<and> june_week ! 2 = 20249 \<and> length june_week = 7
   \<and> \<not> showOnlyHolidays retreat_state \<and> \<not> showOnlyHolidays_ics initial_state_ics
   \<and> cells (renderWeek retreat_state 20240 20249 june_week) ! 2
     = DayCell \<lparr>bgColor = ''bg-green-300'', textColor = ''text-gray-900'',
                title = ''Company Retreat, National Day'',
                dayText = ''10'', badge = Some (''text-gray-700'', [OfficeIcon])\<rparr>
   \<and> cells (renderWeek_ics initial_state_ics 20240 20249 june_week) ! 2
     = DayCell \<lparr>bgColor = ''bg-green-300'', textColor = ''text-gray-900'', title = [],
                dayText = ''10'', badge = Some (''text-gray-700'', [OfficeIcon, PartyIcon])\<rparr>
   \<and> list_ex (\<lambda>h. type h = Work)
        (filter (\<lambda>h. date h = format_yyyy_MM_dd 20249) (holidays retreat_state))
   \<and> list_ex (\<lambda>h. type h = Work)
        (filter (\<lambda>h. date h = format_yyyy_MM_dd 20249) (holidays_ics initial_state_ics))"
proof -
  have n: "snd (weekCounts retreat_state 20249 june_week) = 1" by (simp add: retreat_counts)
  have w: "june_week ! 2 = 20249" "length june_week = 7" by (simp_all add: june_week_def)
  have s: "\<not> showOnlyHolidays retreat_state" "\<not> showOnlyHolidays_ics initial_state_ics"
    by (simp_all add: retreat_state_def initial_state_ics_def)
  have r: "cells (renderWeek retreat_state 20240 20249 june_week) ! 2
     = DayCell \<lparr>bgColor = ''bg-green-300'', textColor = ''text-gray-900'',
                title = ''Company Retreat, National Day'',
                dayText = ''10'', badge = Some (''text-gray-700'', [OfficeIcon])\<rparr>"
    using renderWeek_cells [of retreat_state 20249 june_week 2 20240] n w
    by (simp add: renderDay_retreat_june_10)
  have ri: "cells (renderWeek_ics initial_state_ics 20240 20249 june_week) ! 2
     = DayCell \<lparr>bgColor = ''bg-green-300'', textColor = ''text-gray-900'', title = [],
                dayText = ''10'', badge = Some (''text-gray-700'', [OfficeIcon, PartyIcon])\<rparr>"
    using renderWeek_ics_cells [of 2 june_week initial_state_ics 20240 20249] w
    by (simp add: renderDay_ics_june_10)
  note t = day_cell_colours [where st = retreat_state and today = 20240 and monthDate = 20249
      and week = june_week and i = 2 and day = 20249 and sti = initial_state_ics]
  from t n w s obtain c where
    "cells (renderWeek retreat_state 20240 20249 june_week) ! 2 = DayCell c"
    and "bgColor c =
        (if (20249::int) = 20240 then ''bg-blue-300''
         else if list_ex (\<lambda>h. type h = Work)
                  (if getMonth 20249 = getMonth 20249
                   then filter (\<lambda>h. date h = format_yyyy_MM_dd 20249) (holidays retreat_state)
                   else [])
         then ''bg-green-300''
         else if list_ex (\<lambda>h. type h = Regular)
                  (if getMonth 20249 = getMonth 20249
                   then filter (\<lambda>h. date h = format_yyyy_MM_dd 20249) (holidays retreat_state)
                   else [])
         then ''bg-yellow-200''
         else [])"
    by auto
  with r have a: "list_ex (\<lambda>h. type h = Work)
        (filter (\<lambda>h. date h = format_yyyy_MM_dd 20249) (holidays retreat_state))"
    by (simp split: if_splits)
  from t n w s obtain c' where
    "cells (renderWeek_ics initial_state_ics 20240 20249 june_week) ! 2 = DayCell c'"
    and "bgColor c' =
        (if (20249::int) = 20240 then ''bg-blue-300''
         else if list_ex (\<lambda>h. type h = Work)
                  (filter (\<lambda>h. date h = format_yyyy_MM_dd 20249) (holidays_ics initial_state_ics))
         then ''bg-green-300''
         else if list_ex (\<lambda>h. type h = Regular)
                  (filter (\<lambda>h. date h = format_yyyy_MM_dd 20249) (holidays_ics initial_state_ics))
         then ''bg-yellow-200''
         else [])"
    by auto
  with ri have b: "list_ex (\<lambda>h. type h = Work)
        (filter (\<lambda>h. date h = format_yyyy_MM_dd 20249) (holidays_ics initial_state_ics))"
    by (simp split: if_splits)
  from n w s r ri a b show ?thesis by simp
qed

text \<open>
  The claim fails three times. The import component, with the data it starts with, shows
  both icons on 10 June 2025. The remote component rendering June 2025 gives 4 July, a day
  of its grid with a regular holiday, no colour and no badge. With the filter on, the
  remote component shows the empty cell for today when today has no holiday: today gets no
  background.
\<close>

theorem badge_and_colour_counterexample:
  "filter (\<lambda>h. date h = format_yyyy_MM_dd 20249) (holidays_ics initial_state_ics)
     = [\<lparr>date = ''2025-06-10'', name = ''Company Retreat'', type = Work\<rparr>,
        \<lparr>date = ''2025-06-10'', name = ''National Day'', type = Regular\<rparr>]
   \<and> june_week \<in> set (getWeeks (getMonthDays_tz regular_zone 20249)) \<and> june_week ! 2 = 20249
   \<and> cells (renderWeek_ics initial_state_ics 20240 20249 june_week) ! 2
     = DayCell \<lparr>bgColor = ''bg-green-300'', textColor = ''text-gray-900'', title = [],
                dayText = ''10'', badge = Some (''text-gray-700'', [OfficeIcon, PartyIcon])\<rparr>
   \<and> filter (\<lambda>h. date h = format_yyyy_MM_dd 20273) (holidays july_state)
     = [\<lparr>date = ''2025-07-04'', name = ''Independence Day'', type = Regular\<rparr>]
   \<and> july_week \<in> set (getWeeks (getMonthDays_tz regular_zone 20249)) \<and> july_week ! 5 = 20273
   \<and> weekCounts july_state 20249 july_week = (0, 0)
   \<and> cells (renderWeek july_state 20240 20249 july_week) ! 5
     = DayCell \<lparr>bgColor = [], textColor = ''text-gray-400'', title = [],
                dayText = ''4'', badge = None\<rparr>
   \<and> showOnlyHolidays filtered_state
   \<and> weekCounts filtered_state 20249 june_week = (0, 0)
   \<and> cells (renderWeek filtered_state 20249 20249 june_week) ! 2 = EmptyCell"
proof -
  have g: "getWeeks (getMonthDays_tz regular_zone 20249)
      = [[20240, 20241, 20242, 20243, 20244, 20245, 20246],
         [20247, 20248, 20249, 20250, 20251, 20252, 20253],
         [20254, 20255, 20256, 20257, 20258, 20259, 20260],
         [20261, 20262, 20263, 20264, 20265, 20266, 20267],
         [20268, 20269, 20270, 20271, 20272, 20273, 20274]]"
    by code_simp
  have l: "2 < length june_week" "5 < length july_week"
    by (simp_all add: june_week_def july_week_def)
  have a: "filter (\<lambda>h. date h = format_yyyy_MM_dd 20249) (holidays_ics initial_state_ics)
     = [\<lparr>date = ''2025-06-10'', name = ''Company Retreat'', type = Work\<rparr>,
        \<lparr>date = ''2025-06-10'', name = ''National Day'', type = Regular\<rparr>]"
    by (simp add: initial_state_ics_def initial_holidays_ics_def june_week_format)
  have b: "june_week \<in> set (getWeeks (getMonthDays_tz regular_zone 20249))" "june_week ! 2 = 20249"
    unfolding g by (simp_all add: june_week_def)
  have c: "cells (renderWeek_ics initial_state_ics 20240 20249 june_week) ! 2
     = DayCell \<lparr>bgColor = ''bg-green-300'', textColor = ''text-gray-900'', title = [],
                dayText = ''10'', badge = Some (''text-gray-700'', [OfficeIcon, PartyIcon])\<rparr>"
    using renderWeek_ics_cells [of 2 june_week initial_state_ics 20240 20249] b(2) l(1)
    by (simp add: renderDay_ics_june_10)
  have d: "filter (\<lambda>h. date h = format_yyyy_MM_dd 20273) (holidays july_state)
     = [\<lparr>date = ''2025-07-04'', name = ''Independence Day'', type = Regular\<rparr>]"
    by (simp add: july_state_def july_4_fields)
  have e: "july_week \<in> set (getWeeks (getMonthDays_tz regular_zone 20249))" "july_week ! 5 = 20273"
    unfolding g by (simp_all add: july_week_def)
  have f: "cells (renderWeek july_state 20240 20249 july_week) ! 5
     = DayCell \<lparr>bgColor = [], textColor = ''text-gray-400'', title = [],
                dayText = ''4'', badge = None\<rparr>"
    using renderWeek_cells [of july_state 20249 july_week 5 20240] e(2) l(2)
    by (simp add: july_counts renderDay_july_4)
  have h: "showOnlyHolidays filtered_state" by (simp add: filtered_state_def)
  have k: "cells (renderWeek filtered_state 20249 20249 june_week) ! 2 = EmptyCell"
    using renderWeek_cells [of filtered_state 20249 june_week 2 20249] b(2) l(1)
    by (simp add: filtered_counts renderDay_filtered_today)
  show ?thesis
    apply (intro conjI)
    apply (rule a) apply (rule b(1)) apply (rule b(2)) apply (rule c) apply (rule d)
    apply (rule e(1)) apply (rule e(2)) apply (rule july_counts) apply (rule f)
    apply (rule h) apply (rule filtered_counts) apply (rule k)
    done
qed

text \<open>
  Claim C4, as the code has it. The holiday set the remote component builds holds no two
  records with the same date and name (names are trimmed). A record appended to the
  response is added at the end of the set exactly when it passes the filter and no earlier
  record that passed has its key; where no date contains the separator \<open>|\<close>, that is: when
  its date and trimmed name are not in the set yet. So the first occurrence stays and
  later duplicates are dropped. Normalising the set again changes nothing. The import
  component removes nothing: its set has one record for each event of the file.
\<close>

theorem remote_dedup:
  "distinct (map (\<lambda>h. (date h, name h)) (parsed utcOffset data))
   \<and> parsed utcOffset [] = []
   \<and> parsed utcOffset (data @ [r])
       = parsed utcOffset data
         @ (if keep_raw utcOffset r
               \<and> holiday_key r \<notin> holiday_key ` set (filter (keep_raw utcOffset) data)
            then [parsed_holiday r] else [])
   \<and> ((\<forall>x \<in> set (data @ [r]). CHR ''|'' \<notin> set (text_of (raw_date x))) \<longrightarrow>
       parsed utcOffset (data @ [r])
         = parsed utcOffset data
           @ (if keep_raw utcOffset r
                 \<and> (date (parsed_holiday r), name (parsed_holiday r))
                      \<notin> (\<lambda>h. (date h, name h)) ` set (parsed utcOffset data)
              then [parsed_holiday r] else []))
   \<and> parsed utcOffset (map raw_of (parsed utcOffset data)) = parsed utcOffset data
   \<and> (parsedHolidays vevents = Some hs \<longrightarrow>
       length hs = length vevents
       \<and> handleICSFile (Some (Calendar vevents)) sti
           = (sti\<lparr>holidays_ics := hs, showOnlyHolidays_ics := False\<rparr>, []))"
proof (intro conjI impI)
  show "distinct (map (\<lambda>h. (date h, name h)) (parsed utcOffset data))"
    by (rule parsed_distinct)
  show "parsed utcOffset [] = []" by (simp add: parsed_def)
  show "parsed utcOffset (data @ [r])
       = parsed utcOffset data
         @ (if keep_raw utcOffset r
               \<and> holiday_key r \<notin> holiday_key ` set (filter (keep_raw utcOffset) data)
            then [parsed_holiday r] else [])"
    by (rule parsed_snoc)
  show "parsed utcOffset (map raw_of (parsed utcOffset data)) = parsed utcOffset data"
    by (rule parsed_idem)
next
  assume "\<forall>x \<in> set (data @ [r]). CHR ''|'' \<notin> set (text_of (raw_date x))"
  from parsed_pairs [OF this, of utcOffset]
  show "parsed utcOffset (data @ [r])
         = parsed utcOffset data
           @ (if keep_raw utcOffset r
                 \<and> (date (parsed_holiday r), name (parsed_holiday r))
                      \<notin> (\<lambda>h. (date h, name h)) ` set (parsed utcOffset data)
              then [parsed_holiday r] else [])"
    by (simp only: parsed_snoc)
next
  assume h: "parsedHolidays vevents = Some hs"
  then show "length hs = length vevents" by (rule parsedHolidays_length)
  from h show "handleICSFile (Some (Calendar vevents)) sti
           = (sti\<lparr>holidays_ics := hs, showOnlyHolidays_ics := False\<rparr>, [])"
    by (simp add: handleICSFile_def)
qed

theorem remote_dedup_witness:
  "parsed 0 ([\<lparr>raw_date = Str ''2025-06-10'', localName = Str ''National Day''\<rparr>]
             @ [\<lparr>raw_date = Str ''2025-06-10'', localName = Str '' National Day ''\<rparr>])
     = [\<lparr>date = ''2025-06-10'', name = ''National Day'', type = Regular\<rparr>]
   \<and> parsedHolidays twin_events
     = Some [\<lparr>date = ''2025-06-10'', name = ''National Day'', type = Regular\<rparr>,
             \<lparr>date = ''2025-06-10'', name = ''National Day'', type = Regular\<rparr>]
   \<and> length [\<lparr>date = ''2025-06-10'', name = ''National Day'', type = Regular\<rparr>,
             \<lparr>date = ''2025-06-10'', name = ''National Day'', type = Regular\<rparr>]
     = length twin_events"
proof -
  let ?a = "\<lparr>raw_date = Str ''2025-06-10'', localName = Str ''National Day''\<rparr>"
  let ?b = "\<lparr>raw_date = Str ''2025-06-10'', localName = Str '' National Day ''\<rparr>"
  let ?hs = "[\<lparr>date = ''2025-06-10'', name = ''National Day'', type = Regular\<rparr>,
             \<lparr>date = ''2025-06-10'', name = ''National Day'', type = Regular\<rparr>]"
  note t = remote_dedup [where utcOffset = 0 and data = "[?a]" and r = ?b
      and vevents = twin_events and hs = ?hs]
  have bar: "\<forall>x \<in> set ([?a] @ [?b]). CHR ''|'' \<notin> set (text_of (raw_date x))" by simp
  have one: "parsed 0 [?a] = [\<lparr>date = ''2025-06-10'', name = ''National Day'', type = Regular\<rparr>]"
    by code_simp
  have pb: "parsed_holiday ?b = \<lparr>date = ''2025-06-10'', name = ''National Day'', type = Regular\<rparr>"
    by code_simp
  from t bar have "parsed 0 ([?a] @ [?b])
         = parsed 0 [?a]
           @ (if keep_raw 0 ?b
                 \<and> (date (parsed_holiday ?b), name (parsed_holiday ?b))
                      \<notin> (\<lambda>h. (date h, name h)) ` set (parsed 0 [?a])
              then [parsed_holiday ?b] else [])"
    by blast
  then have p: "parsed 0 ([?a] @ [?b])
      = [\<lparr>date = ''2025-06-10'', name = ''National Day'', type = Regular\<rparr>]"
    by (simp only: one pb) simp
  from t twin_parsed have "length ?hs = length twin_events" by blast
  with p twin_parsed show ?thesis by simp
qed

text \<open>
  The claim fails for the import component: a file with the same event twice gives a set
  with the same date and name twice.
\<close>

theorem import_keeps_duplicates:
  "holidays_ics (fst (handleICSFile (Some (Calendar twin_events)) empty_state_ics))
     = [\<lparr>date = ''2025-06-10'', name = ''National Day'', type = Regular\<rparr>,
        \<lparr>date = ''2025-06-10'', name = ''National Day'', type = Regular\<rparr>]
   \<and> \<not> distinct (map (\<lambda>h. (date h, trim (name h)))
         (holidays_ics (fst (handleICSFile (Some (Calendar twin_events)) empty_state_ics))))"
  by (simp add: handleICSFile_def twin_parsed)

text \<open>
  Claim C7 does not hold in the code. The date string is read as midnight UTC and its
  weekday is taken in local time, so in a zone west of UTC the weekday is that of the day
  before. Five hours west, the record of Saturday 7 June 2025 stays in the holiday set, and
  the record of Monday 9 June 2025 is dropped. From UTC eastwards the filter does what its
  comment says (\<open>weekend_dropped_east_of_utc\<close>).
\<close>

theorem saturday_holiday_survives_west_of_utc:
  "Date_parse ''2025-06-07'' = Some 20246
   \<and> getDay 20246 = 6
   \<and> format_yyyy_MM_dd 20246 = ''2025-06-07''
   \<and> isWeekend (- 300) ''2025-06-07'' = False
   \<and> parsed (- 300) [\<lparr>raw_date = Str ''2025-06-07'', localName = Str ''Flag Day''\<rparr>]
       = [\<lparr>date = ''2025-06-07'', name = ''Flag Day'', type = Regular\<rparr>]
   \<and> Date_parse ''2025-06-09'' = Some 20248
   \<and> getDay 20248 = 1
   \<and> parsed (- 300) [\<lparr>raw_date = Str ''2025-06-09'', localName = Str ''Whit Monday''\<rparr>] = []"
  by code_simp

end
